theory Spec2Isabelle
  imports Main
begin

section \<open>Data model\<close>

text \<open>
  Modelled from the spec: the module \<^verbatim>\<open>common.types\<close> is imported by both task
  managers but is not among the sources. Its types are declared here with the fields the
  managers read and write. \<open>TaskState\<close> is the spec's enumerated set
  {submitted, working, input-required, completed, error}; a part is a tagged union whose
  text variant is \<open>TextPart\<close>, every other kind is \<open>NonTextPart\<close> with its kind tag.
\<close>

datatype TaskState = SUBMITTED | WORKING | INPUT_REQUIRED | COMPLETED | ERROR

datatype part = TextPart string | NonTextPart string

record Message =
  role :: string
  parts :: "part list"

record TaskStatus =
  state :: TaskState
  status_message :: "Message option"

record Artifact =
  artifact_parts :: "part list"

record Task =
  task_id :: string
  sessionId :: "string option"
  status :: TaskStatus
  message :: "Message option"
  artifacts :: "Artifact list option"

record TaskSendParams =
  params_id :: string
  params_sessionId :: string
  params_message :: Message
  acceptedOutputModes :: "string list option"

record SendTaskRequest =
  request_id :: string
  params :: TaskSendParams

datatype event =
    TaskStatusUpdateEvent string TaskStatus bool
  | TaskArtifactUpdateEvent string Artifact

datatype JSONRPCError = ContentTypeNotSupportedError | InternalError string

record 'r JSONRPCResponse =
  response_id :: string
  result :: "'r option"
  error :: "JSONRPCError option"

text \<open>
  Python exceptions as values. The string is what \<^verbatim>\<open>str(e)\<close> gives; \<open>Exception\<close>
  stands for any other exception an adapter raises.
\<close>

datatype exn =
    ValueError string
  | IndexError string
  | NotImplementedError string
  | TimeoutError string
  | Exception string

fun str :: "exn \<Rightarrow> string" where
  "str (ValueError m) = m"
| "str (IndexError m) = m"
| "str (NotImplementedError m) = m"
| "str (TimeoutError m) = m"
| "str (Exception m) = m"

text \<open>
  What an adapter hands to the manager: the dict with the keys \<^verbatim>\<open>is_task_complete\<close>,
  \<^verbatim>\<open>content\<close> and the optional \<^verbatim>\<open>require_user_input\<close> (read with
  \<^verbatim>\<open>.get(..., False)\<close>), and the result object of the data analysis agent.
\<close>

record item =
  is_task_complete :: bool
  require_user_input :: "bool option"
  content :: string

record AnalysisResult =
  result_content :: string
  result_type :: string

text \<open>
  An asynchronous adapter stream, run to its end: the notifications it yields in order,
  then either normal exhaustion (\<open>None\<close>) or the exception it raises.
\<close>

type_synonym stream_out = "item list \<times> exn option"

text \<open>
  Modelled from the spec: \<^verbatim>\<open>common.server.utils\<close> is not among the sources.
  \<^verbatim>\<open>are_modalities_compatible\<close> is a parameter of the operations that call it;
  \<^verbatim>\<open>new_incompatible_types_error\<close> builds the typed error result of a modality
  mismatch for the request's id.
\<close>

type_synonym modality_check = "string list option \<Rightarrow> string list \<Rightarrow> bool"

definition new_incompatible_types_error :: "string \<Rightarrow> 'r JSONRPCResponse" where
  "new_incompatible_types_error rid =
     \<lparr>response_id = rid, result = None, error = Some ContentTypeNotSupportedError\<rparr>"

section \<open>Manager state: the task dictionary and the history of its effects\<close>

text \<open>
  The managers keep one dictionary from task id to the stored object. The state carries,
  beside the dictionary, the history of observable effects in the order they happen:
  every dictionary write (key and value written) and every response a stream generator
  yields. The history is never read by the operations.
\<close>

datatype 'v effect = Write string 'v | Yield "event JSONRPCResponse"

record 'v manager =
  tasks :: "string \<rightharpoonup> 'v"
  history :: "'v effect list"

definition yield :: "'v manager \<Rightarrow> event JSONRPCResponse \<Rightarrow> 'v manager" where
  "yield s r = s\<lparr>history := history s @ [Yield r]\<rparr>"

text \<open>Python truthiness of an optional list: \<^verbatim>\<open>None\<close> and \<^verbatim>\<open>[]\<close> are false.\<close>

fun truthy :: "'a list option \<Rightarrow> bool" where
  "truthy None = False"
| "truthy (Some xs) = (xs \<noteq> [])"

datatype task_or_params = AsTask Task | AsParams TaskSendParams

section \<open>hiagent/task\_manager.py\<close>

definition hiagent_SUPPORTED_CONTENT_TYPES :: "string list" where
  "hiagent_SUPPORTED_CONTENT_TYPES = [''text'', ''text/plain'']"

definition hiagent_get_task :: "Task manager \<Rightarrow> string \<Rightarrow> Task option" where
  "hiagent_get_task s tid = tasks s tid"

text \<open>
  \<^verbatim>\<open>upsert_task\<close>: a \<^verbatim>\<open>TaskSendParams\<close> is converted to a \<^verbatim>\<open>Task\<close> in state
  \<^verbatim>\<open>TaskState.WORKING\<close> first; then \<^verbatim>\<open>self._tasks[task.id] = task\<close>.
\<close>

definition hiagent_upsert_task :: "Task manager \<Rightarrow> task_or_params \<Rightarrow> Task manager" where
  "hiagent_upsert_task s t =
     (let task = (case t of
                    AsParams p \<Rightarrow>
                      \<lparr>task_id = params_id p,
                       sessionId = Some (params_sessionId p),
                       status = \<lparr>state = WORKING, status_message = None\<rparr>,
                       message = Some (params_message p),
                       artifacts = None\<rparr>
                  | AsTask k \<Rightarrow> k)
      in s\<lparr>tasks := (tasks s)(task_id task \<mapsto> task),
            history := history s @ [Write (task_id task) task]\<rparr>)"

definition hiagent_get_user_query :: "TaskSendParams \<Rightarrow> exn + string" where
  "hiagent_get_user_query task_send_params =
     (case parts (params_message task_send_params) of
        [] \<Rightarrow> Inl (IndexError ''list index out of range'')
      | part # _ \<Rightarrow>
          (case part of
             TextPart t \<Rightarrow> Inr t
           | NonTextPart _ \<Rightarrow> Inl (ValueError ''Only text parts are supported'')))"

text \<open>
  \<^verbatim>\<open>_update_store\<close> mutates the stored object in place (the entry under \<open>task_id\<close>
  changes with it) and then upserts it under its own id.
\<close>

definition hiagent_update_store ::
  "Task manager \<Rightarrow> string \<Rightarrow> TaskStatus \<Rightarrow> Artifact list option \<Rightarrow> exn + (Task \<times> Task manager)" where
  "hiagent_update_store s tid new_status arts =
     (case hiagent_get_task s tid of
        None \<Rightarrow> Inl (ValueError (''Task '' @ tid @ '' not found''))
      | Some task \<Rightarrow>
          (let task1 = task\<lparr>status := new_status\<rparr>;
               task2 = (if truthy arts then task1\<lparr>artifacts := arts\<rparr> else task1);
               s1 = s\<lparr>tasks := (tasks s)(tid \<mapsto> task2)\<rparr>
           in Inr (task2, hiagent_upsert_task s1 (AsTask task2))))"

definition hiagent_validate_request ::
  "modality_check \<Rightarrow> SendTaskRequest \<Rightarrow> 'r JSONRPCResponse option" where
  "hiagent_validate_request are_modalities_compatible request =
     (if \<not> are_modalities_compatible (acceptedOutputModes (params request))
              hiagent_SUPPORTED_CONTENT_TYPES
      then Some (new_incompatible_types_error (request_id request))
      else None)"

definition status_response :: "string \<Rightarrow> string \<Rightarrow> TaskStatus \<Rightarrow> bool \<Rightarrow> event JSONRPCResponse" where
  "status_response rid tid st fin =
     \<lparr>response_id = rid, result = Some (TaskStatusUpdateEvent tid st fin), error = None\<rparr>"

definition artifact_response :: "string \<Rightarrow> string \<Rightarrow> Artifact \<Rightarrow> event JSONRPCResponse" where
  "artifact_response rid tid a =
     \<lparr>response_id = rid, result = Some (TaskArtifactUpdateEvent tid a), error = None\<rparr>"

definition error_response :: "string \<Rightarrow> exn \<Rightarrow> event JSONRPCResponse" where
  "error_response rid e =
     \<lparr>response_id = rid, result = None, error = Some (InternalError (str e))\<rparr>"

text \<open>
  The body of \<^verbatim>\<open>_stream_generator\<close>'s \<^verbatim>\<open>try\<close>: one round of the
  \<^verbatim>\<open>async for\<close> per notification. An exception (the adapter's, or
  \<^verbatim>\<open>_update_store\<close>'s) ends the loop in the \<^verbatim>\<open>except\<close> branch, which yields
  one error response. There is no \<^verbatim>\<open>break\<close>: the loop ends when the adapter
  stream does.
\<close>

fun hiagent_stream_loop ::
  "string \<Rightarrow> TaskSendParams \<Rightarrow> item list \<Rightarrow> exn option \<Rightarrow> Task manager \<Rightarrow> Task manager" where
  "hiagent_stream_loop rid p [] None s = s"
| "hiagent_stream_loop rid p [] (Some e) s = yield s (error_response rid e)"
| "hiagent_stream_loop rid p (it # rest) fin s =
     (let require_input = (require_user_input it = Some True);
          item_parts = [TextPart (content it)];
          (task_state, end_stream) =
             (if \<not> is_task_complete it \<and> \<not> require_input then (WORKING, False)
              else if require_input then (INPUT_REQUIRED, True)
              else (COMPLETED, True));
          task_status = \<lparr>state = task_state,
                         status_message = Some \<lparr>role = ''agent'', parts = item_parts\<rparr>\<rparr>;
          arts = (if is_task_complete it then Some [\<lparr>artifact_parts = item_parts\<rparr>] else None)
      in case hiagent_update_store s (params_id p) task_status arts of
           Inl e \<Rightarrow> yield s (error_response rid e)
         | Inr (latest_task, s1) \<Rightarrow>
             (let s2 = yield s1 (status_response rid (params_id p) task_status end_stream);
                  s3 = (if truthy arts
                        then foldl (\<lambda>acc a. yield acc (artifact_response rid (params_id p) a))
                               s2 (the arts)
                        else s2)
              in hiagent_stream_loop rid p rest fin s3))"

text \<open>
  \<^verbatim>\<open>_stream_generator\<close>, drained by its consumer. The query is extracted outside
  the \<^verbatim>\<open>try\<close>, so its exception leaves the generator (first component).
\<close>

definition hiagent_stream_generator ::
  "(string \<Rightarrow> string \<Rightarrow> stream_out) \<Rightarrow> SendTaskRequest \<Rightarrow> Task manager \<Rightarrow> exn option \<times> Task manager" where
  "hiagent_stream_generator agent_stream request s =
     (let task_send_params = params request
      in case hiagent_get_user_query task_send_params of
           Inl e \<Rightarrow> (Some e, s)
         | Inr query \<Rightarrow>
             (case agent_stream query (params_sessionId task_send_params) of
                (items, fin) \<Rightarrow>
                  (None, hiagent_stream_loop (request_id request) task_send_params items fin s)))"

text \<open>
  \<^verbatim>\<open>on_send_task\<close>: the result is the raised exception (\<open>Inl\<close>) or the response.
\<close>

definition hiagent_on_send_task ::
  "modality_check \<Rightarrow> (string \<Rightarrow> string \<Rightarrow> exn + item) \<Rightarrow> SendTaskRequest \<Rightarrow> Task manager
     \<Rightarrow> (exn + Task JSONRPCResponse) \<times> Task manager" where
  "hiagent_on_send_task are_modalities_compatible agent_invoke request s =
     (case hiagent_validate_request are_modalities_compatible request of
        Some err \<Rightarrow> (Inr err, s)
      | None \<Rightarrow>
          (let s1 = hiagent_upsert_task s (AsParams (params request));
               task_send_params = params request
           in case hiagent_get_user_query task_send_params of
                Inl e \<Rightarrow> (Inl e, s1)
              | Inr query \<Rightarrow>
                  (case agent_invoke query (params_sessionId task_send_params) of
                     Inl e \<Rightarrow> (Inl (ValueError (''Error invoking agent: '' @ str e)), s1)
                   | Inr res \<Rightarrow>
                       (let res_parts = [TextPart (content res)];
                            task_state = (if require_user_input res = Some True
                                          then INPUT_REQUIRED else COMPLETED)
                        in case hiagent_update_store s1 (params_id task_send_params)
                                  \<lparr>state = task_state,
                                   status_message = Some \<lparr>role = ''agent'', parts = res_parts\<rparr>\<rparr>
                                  (Some [\<lparr>artifact_parts = res_parts\<rparr>]) of
                             Inl e \<Rightarrow> (Inl (ValueError (''Error invoking agent: '' @ str e)), s1)
                           | Inr (task, s2) \<Rightarrow>
                               (Inr \<lparr>response_id = request_id request, result = Some task,
                                     error = None\<rparr>, s2)))))"

text \<open>
  \<^verbatim>\<open>on_send_task_subscribe\<close> together with the consumption of the generator it
  returns: \<open>Inl\<close> is the error response of the validation, \<open>Inr\<close> the exception that
  left the generator, if any.
\<close>

definition hiagent_on_send_task_subscribe ::
  "modality_check \<Rightarrow> (string \<Rightarrow> string \<Rightarrow> stream_out) \<Rightarrow> SendTaskRequest \<Rightarrow> Task manager
     \<Rightarrow> (event JSONRPCResponse + exn option) \<times> Task manager" where
  "hiagent_on_send_task_subscribe are_modalities_compatible agent_stream request s =
     (case hiagent_validate_request are_modalities_compatible request of
        Some err \<Rightarrow> (Inl err, s)
      | None \<Rightarrow>
          (let s1 = hiagent_upsert_task s (AsParams (params request))
           in case hiagent_stream_generator agent_stream request s1 of
                (raised, s2) \<Rightarrow> (Inr raised, s2)))"

section \<open>crewai/data\_analysis\_task\_manager.py\<close>

definition crewai_SUPPORTED_CONTENT_TYPES :: "string list" where
  "crewai_SUPPORTED_CONTENT_TYPES = [''text'']"

definition crewai_get_task :: "task_or_params manager \<Rightarrow> string \<Rightarrow> task_or_params option" where
  "crewai_get_task s tid = tasks s tid"

text \<open>
  \<^verbatim>\<open>upsert_task\<close> stores the object it is given under its \<^verbatim>\<open>id\<close>;
  \<^verbatim>\<open>on_send_task\<close> calls it with the request's \<^verbatim>\<open>TaskSendParams\<close>, so the
  dictionary holds either kind of object.
\<close>

definition crewai_upsert_task ::
  "task_or_params manager \<Rightarrow> task_or_params \<Rightarrow> task_or_params manager" where
  "crewai_upsert_task s t =
     (let key = (case t of AsTask k \<Rightarrow> task_id k | AsParams p \<Rightarrow> params_id p)
      in s\<lparr>tasks := (tasks s)(key \<mapsto> t), history := history s @ [Write key t]\<rparr>)"

definition crewai_get_user_query :: "TaskSendParams \<Rightarrow> exn + string" where
  "crewai_get_user_query task_send_params =
     (case parts (params_message task_send_params) of
        [] \<Rightarrow> Inl (IndexError ''list index out of range'')
      | part # _ \<Rightarrow>
          (case part of
             TextPart t \<Rightarrow> Inr t
           | NonTextPart _ \<Rightarrow> Inl (ValueError ''Only text parts are supported'')))"

definition crewai_invoke ::
  "(string \<Rightarrow> exn + AnalysisResult) \<Rightarrow> SendTaskRequest \<Rightarrow> task_or_params manager
     \<Rightarrow> (exn + Task JSONRPCResponse) \<times> task_or_params manager" where
  "crewai_invoke agent_invoke request s =
     (let task_send_params = params request
      in case crewai_get_user_query task_send_params of
           Inl e \<Rightarrow> (Inl e, s)
         | Inr query \<Rightarrow>
             (case agent_invoke query of
                Inr res \<Rightarrow>
                  (let task =
                         \<lparr>task_id = params_id task_send_params,
                          sessionId = None,
                          status = \<lparr>state = COMPLETED, status_message = None\<rparr>,
                          message = Some \<lparr>role = ''agent'',
                                          parts = [TextPart (result_content res)]\<rparr>,
                          artifacts = Some [\<lparr>artifact_parts = [TextPart (result_content res)]\<rparr>]\<rparr>;
                       s1 = crewai_upsert_task s (AsTask task)
                   in (Inr \<lparr>response_id = request_id request, result = Some task, error = None\<rparr>,
                       s1))
              | Inl e \<Rightarrow>
                  (let error_task =
                         \<lparr>task_id = params_id task_send_params,
                          sessionId = None,
                          status = \<lparr>state = ERROR, status_message = None\<rparr>,
                          message = Some \<lparr>role = ''agent'',
                                          parts = [TextPart (''Error: '' @ str e)]\<rparr>,
                          artifacts = Some []\<rparr>;
                       s1 = crewai_upsert_task s (AsTask error_task)
                   in (Inl (ValueError (''Error invoking agent: '' @ str e)), s1))))"

definition crewai_on_send_task ::
  "modality_check \<Rightarrow> (string \<Rightarrow> exn + AnalysisResult) \<Rightarrow> SendTaskRequest
     \<Rightarrow> task_or_params manager \<Rightarrow> (exn + Task JSONRPCResponse) \<times> task_or_params manager" where
  "crewai_on_send_task are_modalities_compatible agent_invoke request s =
     (if \<not> are_modalities_compatible (acceptedOutputModes (params request))
              crewai_SUPPORTED_CONTENT_TYPES
      then (Inr (new_incompatible_types_error (request_id request)), s)
      else (let task_send_params = params request;
                s1 = crewai_upsert_task s (AsParams task_send_params)
            in crewai_invoke agent_invoke request s1))"

definition crewai_on_send_task_subscribe ::
  "SendTaskRequest \<Rightarrow> task_or_params manager \<Rightarrow> exn \<times> task_or_params manager" where
  "crewai_on_send_task_subscribe request s =
     (NotImplementedError ''Streaming subscriptions are not supported'', s)"

section \<open>hiagent/CustomerDetails\_agent.py: waiting for the remote process\<close>

text \<open>
  \<^verbatim>\<open>_query_process\<close> is one HTTP round trip; here it is a parameter that gives, for
  the run id and the number of earlier calls, the exception it raises or the response
  dict (its \<^verbatim>\<open>status\<close> and the rest of it). The actions of the wait are recorded
  in order: each query and each \<^verbatim>\<open>asyncio.sleep\<close>.
\<close>

record process_data =
  process_status :: string
  process_nodes :: string

datatype wait_action = QueryProcess string | Sleep nat

fun wait_attempts ::
  "(string \<Rightarrow> nat \<Rightarrow> exn + process_data) \<Rightarrow> string \<Rightarrow> nat \<Rightarrow> nat
     \<Rightarrow> (exn + process_data) \<times> wait_action list" where
  "wait_attempts query_process run_id attempt 0 =
     (Inl (TimeoutError ''Process did not complete within the expected time''), [])"
| "wait_attempts query_process run_id attempt (Suc remaining) =
     (case query_process run_id attempt of
        Inl e \<Rightarrow> (Inl e, [QueryProcess run_id])
      | Inr pd \<Rightarrow>
          if process_status pd = ''success'' then (Inr pd, [QueryProcess run_id])
          else if process_status pd = ''processing'' then
            (case wait_attempts query_process run_id (Suc attempt) remaining of
               (r, acts) \<Rightarrow> (r, QueryProcess run_id # Sleep 2 # acts))
          else (Inl (ValueError (''Process failed with status: '' @ process_status pd)),
                [QueryProcess run_id]))"

text \<open>
  \<^verbatim>\<open>_wait_for_process(run_id, max_retries)\<close>: \<^verbatim>\<open>range(max_retries)\<close> is empty for
  a \<^verbatim>\<open>max_retries\<close> below one.
\<close>

definition wait_for_process ::
  "(string \<Rightarrow> nat \<Rightarrow> exn + process_data) \<Rightarrow> string \<Rightarrow> int
     \<Rightarrow> (exn + process_data) \<times> wait_action list" where
  "wait_for_process query_process run_id max_retries =
     wait_attempts query_process run_id 0 (nat max_retries)"

section \<open>Observations on a run\<close>

text \<open>The effects an operation added to the history.\<close>

definition new_effects :: "'v manager \<Rightarrow> 'v manager \<Rightarrow> 'v effect list" where
  "new_effects s s' = drop (length (history s)) (history s')"

text \<open>The responses delivered to the subscriber, in order.\<close>

fun yields :: "'v effect list \<Rightarrow> event JSONRPCResponse list" where
  "yields [] = []"
| "yields (Write k v # es) = yields es"
| "yields (Yield r # es) = r # yields es"

text \<open>
  The states written for a task id, in order: what successive \<^verbatim>\<open>get_task\<close> calls
  made after each write observe.
\<close>

fun written_states :: "string \<Rightarrow> Task effect list \<Rightarrow> TaskState list" where
  "written_states tid [] = []"
| "written_states tid (Write k v # es) =
     (if k = tid then state (status v) # written_states tid es else written_states tid es)"
| "written_states tid (Yield r # es) = written_states tid es"

definition is_final :: "event JSONRPCResponse \<Rightarrow> bool" where
  "is_final r = (case result r of Some (TaskStatusUpdateEvent _ _ f) \<Rightarrow> f | _ \<Rightarrow> False)"

definition is_artifact_update :: "event JSONRPCResponse \<Rightarrow> bool" where
  "is_artifact_update r = (case result r of Some (TaskArtifactUpdateEvent _ _) \<Rightarrow> True | _ \<Rightarrow> False)"

definition is_status_update :: "event JSONRPCResponse \<Rightarrow> bool" where
  "is_status_update r = (case result r of Some (TaskStatusUpdateEvent _ _ _) \<Rightarrow> True | _ \<Rightarrow> False)"

text \<open>A terminal notification: \<^verbatim>\<open>is_task_complete\<close> or \<^verbatim>\<open>require_user_input\<close>.\<close>

definition is_terminal :: "item \<Rightarrow> bool" where
  "is_terminal it = (is_task_complete it \<or> require_user_input it = Some True)"

text \<open>
  What one notification stands for: the state and status derived from it, and the
  responses of its round (a status update, then an artifact update when the task is
  complete).
\<close>

definition item_state :: "item \<Rightarrow> TaskState" where
  "item_state it =
     (if \<not> is_task_complete it \<and> require_user_input it \<noteq> Some True then WORKING
      else if require_user_input it = Some True then INPUT_REQUIRED
      else COMPLETED)"

definition item_status :: "item \<Rightarrow> TaskStatus" where
  "item_status it =
     \<lparr>state = item_state it,
      status_message = Some \<lparr>role = ''agent'', parts = [TextPart (content it)]\<rparr>\<rparr>"

definition item_artifact :: "item \<Rightarrow> Artifact" where
  "item_artifact it = \<lparr>artifact_parts = [TextPart (content it)]\<rparr>"

definition item_responses :: "string \<Rightarrow> string \<Rightarrow> item \<Rightarrow> event JSONRPCResponse list" where
  "item_responses rid tid it =
     status_response rid tid (item_status it) (is_terminal it)
       # (if is_task_complete it then [artifact_response rid tid (item_artifact it)] else [])"

definition item_task :: "Task \<Rightarrow> item \<Rightarrow> Task" where
  "item_task t it =
     (if is_task_complete it
      then t\<lparr>status := item_status it, artifacts := Some [item_artifact it]\<rparr>
      else t\<lparr>status := item_status it\<rparr>)"

fun items_effects :: "string \<Rightarrow> string \<Rightarrow> Task \<Rightarrow> item list \<Rightarrow> Task effect list" where
  "items_effects rid tid t [] = []"
| "items_effects rid tid t (it # rest) =
     Write tid (item_task t it) # map Yield (item_responses rid tid it)
       @ items_effects rid tid (item_task t it) rest"

definition initial_task :: "TaskSendParams \<Rightarrow> Task" where
  "initial_task p =
     \<lparr>task_id = params_id p, sessionId = Some (params_sessionId p),
      status = \<lparr>state = WORKING, status_message = None\<rparr>,
      message = Some (params_message p), artifacts = None\<rparr>"

text \<open>The adapter contract of the spec: no notification after the first terminal one.\<close>

fun no_item_after_terminal :: "item list \<Rightarrow> bool" where
  "no_item_after_terminal [] = True"
| "no_item_after_terminal (it # rest) =
     (if is_terminal it then rest = [] else no_item_after_terminal rest)"

text \<open>The notifications up to and including the first terminal one.\<close>

fun prefix_to_first_terminal :: "item list \<Rightarrow> item list" where
  "prefix_to_first_terminal [] = []"
| "prefix_to_first_terminal (it # rest) =
     (if is_terminal it then [it] else it # prefix_to_first_terminal rest)"

text \<open>
  The order of the spec on task states: submitted < working < {completed, error,
  input-required}, the last three not related to each other.
\<close>

fun state_rank :: "TaskState \<Rightarrow> nat" where
  "state_rank SUBMITTED = 0"
| "state_rank WORKING = 1"
| "state_rank INPUT_REQUIRED = 2"
| "state_rank COMPLETED = 2"
| "state_rank ERROR = 2"

definition state_le :: "TaskState \<Rightarrow> TaskState \<Rightarrow> bool" where
  "state_le a b = (a = b \<or> state_rank a < state_rank b)"

text \<open>A poll reports \<^verbatim>\<open>processing\<close> at call \<open>i\<close>.\<close>

definition processing_at :: "(string \<Rightarrow> nat \<Rightarrow> exn + process_data) \<Rightarrow> string \<Rightarrow> nat \<Rightarrow> bool" where
  "processing_at query_process run_id i =
     (case query_process run_id i of
        Inl e \<Rightarrow> False
      | Inr pd \<Rightarrow> process_status pd = ''processing'')"

section \<open>Concrete inputs\<close>

text \<open>
  Poll stubs: one that reports \<^verbatim>\<open>processing\<close> on every call, one that reports it
  twice and then a given status.
\<close>

definition always_processing :: "string \<Rightarrow> nat \<Rightarrow> exn + process_data" where
  "always_processing run_id i = Inr \<lparr>process_status = ''processing'', process_nodes = []\<rparr>"

definition ends_with :: "string \<Rightarrow> string \<Rightarrow> nat \<Rightarrow> exn + process_data" where
  "ends_with final_status run_id i =
     (if i < 2 then Inr \<lparr>process_status = ''processing'', process_nodes = []\<rparr>
      else Inr \<lparr>process_status = final_status, process_nodes = ''nodes''\<rparr>)"

text \<open>
  A modality check to run the operations with: a request is accepted when it names no
  modes or one of its modes is supported.
\<close>

definition common_mode :: modality_check where
  "common_mode accepted supported =
     (case accepted of None \<Rightarrow> True | Some modes \<Rightarrow> modes = [] \<or> list_ex (\<lambda>m. m \<in> set supported) modes)"

text \<open>A request for task \<open>t1\<close> of session \<open>s1\<close> with the given modes and parts.\<close>

definition request_with :: "string list \<Rightarrow> part list \<Rightarrow> SendTaskRequest" where
  "request_with modes ps =
     \<lparr>request_id = ''r1'',
      params = \<lparr>params_id = ''t1'', params_sessionId = ''s1'',
                params_message = \<lparr>role = ''user'', parts = ps\<rparr>,
                acceptedOutputModes = Some modes\<rparr>\<rparr>"

definition empty_manager :: "'v manager" where
  "empty_manager = \<lparr>tasks = Map.empty, history = []\<rparr>"

text \<open>Adapters with a fixed outcome.\<close>

definition stream_of :: "item list \<Rightarrow> exn option \<Rightarrow> string \<Rightarrow> string \<Rightarrow> stream_out" where
  "stream_of items fin query session = (items, fin)"

definition invoke_returns :: "item \<Rightarrow> string \<Rightarrow> string \<Rightarrow> exn + item" where
  "invoke_returns res query session = Inr res"

definition invoke_raises :: "exn \<Rightarrow> string \<Rightarrow> string \<Rightarrow> exn + item" where
  "invoke_raises e query session = Inl e"

definition crew_returns :: "string \<Rightarrow> string \<Rightarrow> exn + AnalysisResult" where
  "crew_returns text query = Inr \<lparr>result_content = text, result_type = ''text''\<rparr>"

definition crew_raises :: "exn \<Rightarrow> string \<Rightarrow> exn + AnalysisResult" where
  "crew_raises e query = Inl e"

definition notification :: "bool \<Rightarrow> bool \<Rightarrow> string \<Rightarrow> item" where
  "notification complete needs_input text =
     \<lparr>is_task_complete = complete, require_user_input = Some needs_input, content = text\<rparr>"

definition raise_effects :: "string \<Rightarrow> exn option \<Rightarrow> Task effect list" where
  "raise_effects rid fin = (case fin of None \<Rightarrow> [] | Some e \<Rightarrow> [Yield (error_response rid e)])"

section \<open>Observations on a streaming send\<close>

text \<open>
  The responses a subscriber of \<^verbatim>\<open>on_send_task_subscribe\<close> receives, and the
  states the call writes for a task id, in order.
\<close>

definition delivered ::
  "modality_check \<Rightarrow> (string \<Rightarrow> string \<Rightarrow> stream_out) \<Rightarrow> SendTaskRequest \<Rightarrow> Task manager
     \<Rightarrow> event JSONRPCResponse list" where
  "delivered are_modalities_compatible agent_stream request s =
     yields (new_effects s
       (snd (hiagent_on_send_task_subscribe are_modalities_compatible agent_stream request s)))"

definition stored_states ::
  "modality_check \<Rightarrow> (string \<Rightarrow> string \<Rightarrow> stream_out) \<Rightarrow> SendTaskRequest \<Rightarrow> Task manager
     \<Rightarrow> TaskState list" where
  "stored_states are_modalities_compatible agent_stream request s =
     written_states (params_id (params request))
       (new_effects s
         (snd (hiagent_on_send_task_subscribe are_modalities_compatible agent_stream request s)))"

section \<open>Facts about the store operations and the stream loop\<close>

lemma hiagent_get_task_upsert:
  "hiagent_get_task (hiagent_upsert_task s (AsParams p)) (params_id p) = Some (initial_task p)"
  by (simp add: hiagent_get_task_def hiagent_upsert_task_def initial_task_def Let_def)

lemma hiagent_update_store_present:
  assumes "tasks s tid = Some t" and "task_id t = tid"
  shows "hiagent_update_store s tid st arts =
           Inr (if truthy arts then t\<lparr>status := st, artifacts := arts\<rparr> else t\<lparr>status := st\<rparr>,
                s\<lparr>tasks := (tasks s)(tid \<mapsto> (if truthy arts then t\<lparr>status := st, artifacts := arts\<rparr>
                                                  else t\<lparr>status := st\<rparr>)),
                  history := history s @ [Write tid (if truthy arts then t\<lparr>status := st, artifacts := arts\<rparr>
                                                     else t\<lparr>status := st\<rparr>)]\<rparr>)"
  using assms
  by (simp add: hiagent_update_store_def hiagent_get_task_def hiagent_upsert_task_def Let_def)

lemma hiagent_update_store_absent:
  "tasks s tid = None \<Longrightarrow>
     hiagent_update_store s tid st arts = Inl (ValueError (''Task '' @ tid @ '' not found''))"
  by (simp add: hiagent_update_store_def hiagent_get_task_def)

lemma item_round:
  assumes "tasks s (params_id p) = Some t" and "task_id t = params_id p"
  shows "hiagent_stream_loop rid p (it # rest) fin s =
           hiagent_stream_loop rid p rest fin
             (s\<lparr>tasks := (tasks s)(params_id p \<mapsto> item_task t it),
                history := history s @ Write (params_id p) (item_task t it)
                             # map Yield (item_responses rid (params_id p) it)\<rparr>)"
  using assms
  by (simp add: hiagent_update_store_present Let_def yield_def item_task_def item_status_def
        item_state_def item_artifact_def item_responses_def is_terminal_def)

lemma item_task_id: "task_id (item_task t it) = task_id t"
  by (simp add: item_task_def)

lemma hiagent_stream_loop_history:
  assumes "tasks s (params_id p) = Some t" and "task_id t = params_id p"
  shows "history (hiagent_stream_loop rid p items fin s) =
           history s @ items_effects rid (params_id p) t items @ raise_effects rid fin"
  using assms
proof (induction items arbitrary: s t)
  case Nil
  then show ?case by (cases fin) (simp_all add: raise_effects_def yield_def)
next
  case (Cons it rest)
  let ?s1 = "s\<lparr>tasks := (tasks s)(params_id p \<mapsto> item_task t it),
                history := history s @ Write (params_id p) (item_task t it)
                             # map Yield (item_responses rid (params_id p) it)\<rparr>"
  have step: "hiagent_stream_loop rid p (it # rest) fin s = hiagent_stream_loop rid p rest fin ?s1"
    using Cons.prems by (rule item_round)
  have "history (hiagent_stream_loop rid p rest fin ?s1) =
          history ?s1 @ items_effects rid (params_id p) (item_task t it) rest @ raise_effects rid fin"
    by (rule Cons.IH) (simp_all add: item_task_id Cons.prems)
  with step show ?case by simp
qed

lemma hiagent_stream_loop_tasks:
  assumes "tasks s (params_id p) = Some t" and "task_id t = params_id p"
  shows "tasks (hiagent_stream_loop rid p items fin s) =
           (tasks s)(params_id p \<mapsto> foldl item_task t items)"
  using assms
proof (induction items arbitrary: s t)
  case Nil
  then show ?case by (cases fin) (auto simp: yield_def)
next
  case (Cons it rest)
  let ?s1 = "s\<lparr>tasks := (tasks s)(params_id p \<mapsto> item_task t it),
                history := history s @ Write (params_id p) (item_task t it)
                             # map Yield (item_responses rid (params_id p) it)\<rparr>"
  have step: "hiagent_stream_loop rid p (it # rest) fin s = hiagent_stream_loop rid p rest fin ?s1"
    using Cons.prems by (rule item_round)
  have "tasks (hiagent_stream_loop rid p rest fin ?s1) =
          (tasks ?s1)(params_id p \<mapsto> foldl item_task (item_task t it) rest)"
    by (rule Cons.IH) (simp_all add: item_task_id Cons.prems)
  with step show ?case by simp
qed

lemma yields_append: "yields (xs @ ys) = yields xs @ yields ys"
  by (induction xs rule: yields.induct) simp_all

lemma yields_map_Yield: "yields (map Yield rs) = rs"
  by (induction rs) simp_all

lemma yields_items_effects:
  "yields (items_effects rid tid t items) = concat (map (item_responses rid tid) items)"
  by (induction items arbitrary: t) (simp_all add: yields_append yields_map_Yield)

lemma written_states_append:
  "written_states tid (xs @ ys) = written_states tid xs @ written_states tid ys"
  by (induction xs rule: written_states.induct) simp_all

lemma written_states_map_Yield: "written_states tid (map Yield rs) = []"
  by (induction rs) simp_all

lemma item_task_state: "state (status (item_task t it)) = item_state it"
  by (simp add: item_task_def item_status_def)

lemma written_states_items_effects:
  "written_states tid (items_effects rid tid t items) = map item_state items"
  by (induction items arbitrary: t)
     (simp_all add: written_states_append written_states_map_Yield item_task_state)

lemma yields_raise_effects:
  "yields (raise_effects rid fin) = (case fin of None \<Rightarrow> [] | Some e \<Rightarrow> [error_response rid e])"
  by (cases fin) (simp_all add: raise_effects_def)

lemma written_states_raise_effects: "written_states tid (raise_effects rid fin) = []"
  by (cases fin) (simp_all add: raise_effects_def)

text \<open>A streaming send of an accepted request whose first part is text.\<close>

lemma hiagent_subscribe_run:
  assumes ok: "are_modalities_compatible (acceptedOutputModes (params request))
                 hiagent_SUPPORTED_CONTENT_TYPES"
    and first: "parts (params_message (params request)) = TextPart q # ps"
    and out: "agent_stream q (params_sessionId (params request)) = (items, fin)"
  shows "fst (hiagent_on_send_task_subscribe are_modalities_compatible agent_stream request s)
           = Inr None"
    and "new_effects s (snd (hiagent_on_send_task_subscribe are_modalities_compatible
                               agent_stream request s))
           = Write (params_id (params request)) (initial_task (params request))
               # items_effects (request_id request) (params_id (params request))
                   (initial_task (params request)) items
               @ raise_effects (request_id request) fin"
    and "tasks (snd (hiagent_on_send_task_subscribe are_modalities_compatible
                       agent_stream request s))
           = (tasks s)(params_id (params request) \<mapsto>
                         foldl item_task (initial_task (params request)) items)"
proof -
  let ?p = "params request"
  let ?s1 = "hiagent_upsert_task s (AsParams ?p)"
  have q: "hiagent_get_user_query ?p = Inr q"
    using first by (simp add: hiagent_get_user_query_def)
  have v: "hiagent_validate_request are_modalities_compatible request
             = (None :: event JSONRPCResponse option)"
    using ok by (simp add: hiagent_validate_request_def)
  have run: "hiagent_on_send_task_subscribe are_modalities_compatible agent_stream request s
               = (Inr None, hiagent_stream_loop (request_id request) ?p items fin ?s1)"
    by (simp add: hiagent_on_send_task_subscribe_def v hiagent_stream_generator_def q out Let_def)
  have t1: "tasks ?s1 (params_id ?p) = Some (initial_task ?p)"
    using hiagent_get_task_upsert [of s ?p] by (simp add: hiagent_get_task_def)
  have id1: "task_id (initial_task ?p) = params_id ?p"
    by (simp add: initial_task_def)
  have h1: "history ?s1 = history s @ [Write (params_id ?p) (initial_task ?p)]"
    by (simp add: hiagent_upsert_task_def initial_task_def Let_def)
  have m1: "tasks ?s1 = (tasks s)(params_id ?p \<mapsto> initial_task ?p)"
    by (simp add: hiagent_upsert_task_def initial_task_def Let_def)
  show "fst (hiagent_on_send_task_subscribe are_modalities_compatible agent_stream request s)
           = Inr None"
    by (simp add: run)
  show "new_effects s (snd (hiagent_on_send_task_subscribe are_modalities_compatible
                               agent_stream request s))
           = Write (params_id ?p) (initial_task ?p)
               # items_effects (request_id request) (params_id ?p) (initial_task ?p) items
               @ raise_effects (request_id request) fin"
    by (simp add: run new_effects_def hiagent_stream_loop_history [OF t1 id1] h1)
  show "tasks (snd (hiagent_on_send_task_subscribe are_modalities_compatible
                       agent_stream request s))
           = (tasks s)(params_id ?p \<mapsto> foldl item_task (initial_task ?p) items)"
    by (simp add: run hiagent_stream_loop_tasks [OF t1 id1] m1)
qed

lemma wait_attempts_processing:
  "(\<And>i. i < k \<Longrightarrow> processing_at query_process run_id (a + i)) \<Longrightarrow>
     wait_attempts query_process run_id a (k + m) =
       (fst (wait_attempts query_process run_id (a + k) m),
        concat (replicate k [QueryProcess run_id, Sleep 2])
          @ snd (wait_attempts query_process run_id (a + k) m))"
proof (induction k arbitrary: a)
  case 0
  then show ?case by simp
next
  case (Suc k)
  have "processing_at query_process run_id (a + 0)"
    by (rule Suc.prems) simp
  then obtain pd where pd: "query_process run_id a = Inr pd" "process_status pd = ''processing''"
    by (auto simp: processing_at_def split: sum.splits)
  have rest: "\<And>i. i < k \<Longrightarrow> processing_at query_process run_id (Suc a + i)"
    using Suc.prems [of "Suc _"] by simp
  have "wait_attempts query_process run_id (Suc a) (k + m) =
       (fst (wait_attempts query_process run_id (Suc a + k) m),
        concat (replicate k [QueryProcess run_id, Sleep 2])
          @ snd (wait_attempts query_process run_id (Suc a + k) m))"
    by (rule Suc.IH) (rule rest)
  then show ?case using pd by (simp add: split_beta)
qed

lemma delivered_run:
  assumes "are_modalities_compatible (acceptedOutputModes (params request))
             hiagent_SUPPORTED_CONTENT_TYPES"
    and "parts (params_message (params request)) = TextPart q # ps"
    and "agent_stream q (params_sessionId (params request)) = (items, fin)"
  shows "delivered are_modalities_compatible agent_stream request s =
           concat (map (item_responses (request_id request) (params_id (params request))) items)
             @ (case fin of None \<Rightarrow> [] | Some e \<Rightarrow> [error_response (request_id request) e])"
  by (simp add: delivered_def hiagent_subscribe_run(2) [where are_modalities_compatible = are_modalities_compatible
          and agent_stream = agent_stream, OF assms] yields_append
        yields_items_effects yields_raise_effects)

lemma stored_states_run:
  assumes "are_modalities_compatible (acceptedOutputModes (params request))
             hiagent_SUPPORTED_CONTENT_TYPES"
    and "parts (params_message (params request)) = TextPart q # ps"
    and "agent_stream q (params_sessionId (params request)) = (items, fin)"
  shows "stored_states are_modalities_compatible agent_stream request s =
           WORKING # map item_state items"
  by (simp add: stored_states_def hiagent_subscribe_run(2) [where are_modalities_compatible = are_modalities_compatible
          and agent_stream = agent_stream, OF assms] written_states_append
        written_states_items_effects written_states_raise_effects initial_task_def)

lemma is_final_status_response [simp]: "is_final (status_response rid tid st f) = f"
  by (simp add: is_final_def status_response_def)

lemma is_final_artifact_response [simp]: "\<not> is_final (artifact_response rid tid a)"
  by (simp add: is_final_def artifact_response_def)

lemma is_final_error_response [simp]: "\<not> is_final (error_response rid e)"
  by (simp add: is_final_def error_response_def)

lemma is_status_update_simps [simp]:
  "is_status_update (status_response rid tid st f)"
  "\<not> is_status_update (artifact_response rid tid a)"
  "\<not> is_status_update (error_response rid e)"
  by (simp_all add: is_status_update_def status_response_def artifact_response_def
        error_response_def)

lemma filter_final_item_responses:
  "filter is_final (item_responses rid tid it) =
     (if is_terminal it then [status_response rid tid (item_status it) True] else [])"
  by (simp add: item_responses_def)

lemma filter_final_nonterminal:
  "\<forall>w\<in>set ws. \<not> is_terminal w \<Longrightarrow>
     filter is_final (concat (map (item_responses rid tid) ws)) = []"
  by (induction ws) (simp_all add: filter_final_item_responses)

lemma filter_status_item_responses:
  "filter is_status_update (item_responses rid tid it) =
     [status_response rid tid (item_status it) (is_terminal it)]"
  by (simp add: item_responses_def)

lemma filter_status_items:
  "filter is_status_update (concat (map (item_responses rid tid) items)) =
     map (\<lambda>it. status_response rid tid (item_status it) (is_terminal it)) items"
  by (induction items) (simp_all add: filter_status_item_responses)

lemma item_state_nonterminal: "\<not> is_terminal it \<Longrightarrow> item_state it = WORKING"
  by (simp add: is_terminal_def item_state_def)

lemma item_state_terminal: "is_terminal it \<Longrightarrow> state_rank (item_state it) = 2"
  by (auto simp: is_terminal_def item_state_def)

lemma state_le_WORKING_item: "state_le WORKING (item_state it)"
  by (cases "is_terminal it")
     (simp_all add: state_le_def item_state_nonterminal item_state_terminal)

lemma sorted_states_contract:
  "no_item_after_terminal items \<Longrightarrow> sorted_wrt state_le (map item_state items)"
proof (induction items)
  case Nil
  then show ?case by simp
next
  case (Cons it rest)
  show ?case
  proof (cases "is_terminal it")
    case True
    with Cons.prems show ?thesis by simp
  next
    case False
    with Cons show ?thesis
      by (simp add: item_state_nonterminal state_le_WORKING_item)
  qed
qed

text \<open>The concrete request passes both validations when it asks for \<open>text\<close>.\<close>

lemma request_with_text_hiagent:
  "common_mode (acceptedOutputModes (params (request_with [''text''] ps)))
     hiagent_SUPPORTED_CONTENT_TYPES"
  by (simp add: common_mode_def request_with_def hiagent_SUPPORTED_CONTENT_TYPES_def)

lemma request_with_text_crewai:
  "common_mode (acceptedOutputModes (params (request_with [''text''] ps)))
     crewai_SUPPORTED_CONTENT_TYPES"
  by (simp add: common_mode_def request_with_def crewai_SUPPORTED_CONTENT_TYPES_def)

lemma request_with_parts: "parts (params_message (params (request_with modes ps))) = ps"
  by (simp add: request_with_def)

lemma request_with_ids:
  "request_id (request_with modes ps) = ''r1''"
  "params_id (params (request_with modes ps)) = ''t1''"
  "params_sessionId (params (request_with modes ps)) = ''s1''"
  "params_message (params (request_with modes ps)) = \<lparr>role = ''user'', parts = ps\<rparr>"
  by (simp_all add: request_with_def)

lemma stream_of_out: "stream_of items fin q session = (items, fin)"
  by (simp add: stream_of_def)

text \<open>
  \<^verbatim>\<open>on_send_task\<close> of an accepted request: after the initial upsert the task is in
  the dictionary, so \<^verbatim>\<open>_update_store\<close> finds it.
\<close>

lemma hiagent_upsert_params:
  "hiagent_upsert_task s (AsParams p) =
     s\<lparr>tasks := (tasks s)(params_id p \<mapsto> initial_task p),
       history := history s @ [Write (params_id p) (initial_task p)]\<rparr>"
  by (simp add: hiagent_upsert_task_def initial_task_def Let_def)

lemma hiagent_on_send_task_accepted:
  assumes "are_modalities_compatible (acceptedOutputModes (params request))
             hiagent_SUPPORTED_CONTENT_TYPES"
  shows "hiagent_on_send_task are_modalities_compatible agent_invoke request s =
           (case hiagent_get_user_query (params request) of
              Inl e \<Rightarrow> (Inl e, hiagent_upsert_task s (AsParams (params request)))
            | Inr query \<Rightarrow>
                (case agent_invoke query (params_sessionId (params request)) of
                   Inl e \<Rightarrow> (Inl (ValueError (''Error invoking agent: '' @ str e)),
                             hiagent_upsert_task s (AsParams (params request)))
                 | Inr res \<Rightarrow>
                     (Inr \<lparr>response_id = request_id request,
                           result = Some ((initial_task (params request))
                              \<lparr>status := \<lparr>state = (if require_user_input res = Some True
                                                     then INPUT_REQUIRED else COMPLETED),
                                           status_message =
                                             Some \<lparr>role = ''agent'',
                                                   parts = [TextPart (content res)]\<rparr>\<rparr>,
                               artifacts := Some [\<lparr>artifact_parts = [TextPart (content res)]\<rparr>]\<rparr>),
                           error = None\<rparr>,
                      s\<lparr>tasks := (tasks s)(params_id (params request) \<mapsto>
                             (initial_task (params request))
                              \<lparr>status := \<lparr>state = (if require_user_input res = Some True
                                                     then INPUT_REQUIRED else COMPLETED),
                                           status_message =
                                             Some \<lparr>role = ''agent'',
                                                   parts = [TextPart (content res)]\<rparr>\<rparr>,
                               artifacts := Some [\<lparr>artifact_parts = [TextPart (content res)]\<rparr>]\<rparr>),
                        history := history s @
                          [Write (params_id (params request)) (initial_task (params request)),
                           Write (params_id (params request))
                             ((initial_task (params request))
                              \<lparr>status := \<lparr>state = (if require_user_input res = Some True
                                                     then INPUT_REQUIRED else COMPLETED),
                                           status_message =
                                             Some \<lparr>role = ''agent'',
                                                   parts = [TextPart (content res)]\<rparr>\<rparr>,
                               artifacts := Some [\<lparr>artifact_parts = [TextPart (content res)]\<rparr>]\<rparr>)]\<rparr>)))"
proof -
  let ?p = "params request"
  let ?s1 = "hiagent_upsert_task s (AsParams ?p)"
  have v: "hiagent_validate_request are_modalities_compatible request
             = (None :: Task JSONRPCResponse option)"
    using assms by (simp add: hiagent_validate_request_def)
  have t1: "tasks ?s1 (params_id ?p) = Some (initial_task ?p)"
    by (simp add: hiagent_upsert_params)
  have id1: "task_id (initial_task ?p) = params_id ?p"
    by (simp add: initial_task_def)
  have upd: "\<And>st arts. hiagent_update_store ?s1 (params_id ?p) st (Some [arts]) =
           Inr ((initial_task ?p)\<lparr>status := st, artifacts := Some [arts]\<rparr>,
                ?s1\<lparr>tasks := (tasks ?s1)(params_id ?p \<mapsto>
                                 (initial_task ?p)\<lparr>status := st, artifacts := Some [arts]\<rparr>),
                    history := history ?s1 @
                      [Write (params_id ?p)
                         ((initial_task ?p)\<lparr>status := st, artifacts := Some [arts]\<rparr>)]\<rparr>)"
    using hiagent_update_store_present [OF t1 id1] by simp
  show ?thesis
    unfolding hiagent_on_send_task_def v
    apply (simp add: Let_def upd split: sum.splits)
    apply (simp add: hiagent_upsert_params)
    done
qed

lemma hiagent_on_send_task_first_write:
  assumes "are_modalities_compatible (acceptedOutputModes (params request))
             hiagent_SUPPORTED_CONTENT_TYPES"
  shows "take 1 (new_effects s
                   (snd (hiagent_on_send_task are_modalities_compatible agent_invoke request s)))
           = [Write (params_id (params request)) (initial_task (params request))]"
  unfolding hiagent_on_send_task_accepted
      [where are_modalities_compatible = are_modalities_compatible, OF assms] new_effects_def
  by (simp add: hiagent_upsert_params split: sum.splits)

lemma hiagent_on_send_task_subscribe_accepted:
  assumes "are_modalities_compatible (acceptedOutputModes (params request))
             hiagent_SUPPORTED_CONTENT_TYPES"
  shows "hiagent_on_send_task_subscribe are_modalities_compatible agent_stream request s =
           (case hiagent_get_user_query (params request) of
              Inl e \<Rightarrow> (Inr (Some e), hiagent_upsert_task s (AsParams (params request)))
            | Inr query \<Rightarrow>
                (Inr None,
                 hiagent_stream_loop (request_id request) (params request)
                   (fst (agent_stream query (params_sessionId (params request))))
                   (snd (agent_stream query (params_sessionId (params request))))
                   (hiagent_upsert_task s (AsParams (params request)))))"
proof -
  have v: "hiagent_validate_request are_modalities_compatible request
             = (None :: event JSONRPCResponse option)"
    using assms by (simp add: hiagent_validate_request_def)
  show ?thesis
    unfolding hiagent_on_send_task_subscribe_def v
    by (simp add: hiagent_stream_generator_def Let_def split_beta split: sum.splits)
qed

lemma hiagent_on_send_task_subscribe_first_write:
  assumes "are_modalities_compatible (acceptedOutputModes (params request))
             hiagent_SUPPORTED_CONTENT_TYPES"
  shows "take 1 (new_effects s
                   (snd (hiagent_on_send_task_subscribe are_modalities_compatible agent_stream
                           request s)))
           = [Write (params_id (params request)) (initial_task (params request))]"
proof -
  let ?p = "params request"
  let ?s1 = "hiagent_upsert_task s (AsParams ?p)"
  have t1: "tasks ?s1 (params_id ?p) = Some (initial_task ?p)"
    by (simp add: hiagent_upsert_params)
  have id1: "task_id (initial_task ?p) = params_id ?p"
    by (simp add: initial_task_def)
  have h1: "history ?s1 = history s @ [Write (params_id ?p) (initial_task ?p)]"
    by (simp add: hiagent_upsert_params)
  show ?thesis
    unfolding hiagent_on_send_task_subscribe_accepted
      [where are_modalities_compatible = are_modalities_compatible, OF assms] new_effects_def
    by (simp add: hiagent_stream_loop_history [OF t1 id1] h1 split: sum.splits)
qed

lemma crewai_on_send_task_accepted:
  assumes "are_modalities_compatible (acceptedOutputModes (params request))
             crewai_SUPPORTED_CONTENT_TYPES"
  shows "crewai_on_send_task are_modalities_compatible agent_invoke request c =
           crewai_invoke agent_invoke request (crewai_upsert_task c (AsParams (params request)))"
  using assms by (simp add: crewai_on_send_task_def Let_def)

lemma crewai_upsert_params:
  "crewai_upsert_task c (AsParams p) =
     c\<lparr>tasks := (tasks c)(params_id p \<mapsto> AsParams p),
       history := history c @ [Write (params_id p) (AsParams p)]\<rparr>"
  by (simp add: crewai_upsert_task_def Let_def)

lemma crewai_on_send_task_first_write:
  assumes "are_modalities_compatible (acceptedOutputModes (params request))
             crewai_SUPPORTED_CONTENT_TYPES"
  shows "take 1 (new_effects c
                   (snd (crewai_on_send_task are_modalities_compatible agent_invoke request c)))
           = [Write (params_id (params request)) (AsParams (params request))]"
  unfolding crewai_on_send_task_accepted
      [where are_modalities_compatible = are_modalities_compatible, OF assms] new_effects_def
  by (simp add: crewai_invoke_def crewai_upsert_params crewai_upsert_task_def Let_def
        split: sum.splits)

text \<open>The states a synchronous send writes: the initial one, then at most one more.\<close>

lemma hiagent_on_send_task_states:
  assumes "are_modalities_compatible (acceptedOutputModes (params request))
             hiagent_SUPPORTED_CONTENT_TYPES"
  shows "written_states (params_id (params request))
           (new_effects s
              (snd (hiagent_on_send_task are_modalities_compatible agent_invoke request s)))
         = (case hiagent_get_user_query (params request) of
              Inl e \<Rightarrow> [WORKING]
            | Inr query \<Rightarrow>
                (case agent_invoke query (params_sessionId (params request)) of
                   Inl e \<Rightarrow> [WORKING]
                 | Inr res \<Rightarrow>
                     [WORKING,
                      if require_user_input res = Some True then INPUT_REQUIRED else COMPLETED]))"
  unfolding hiagent_on_send_task_accepted
      [where are_modalities_compatible = are_modalities_compatible, OF assms] new_effects_def
  by (simp add: hiagent_upsert_params initial_task_def split: sum.splits)

section \<open>The claims\<close>

subsection \<open>C1: the final flag of a streaming send\<close>

text \<open>
  C1, as the code has it. For a streaming send of an accepted request whose adapter
  stream yields non-terminal notifications, then one terminal notification, and ends
  without raising: the delivered sequence has exactly one response with \<open>final = True\<close>,
  the status update of the terminal notification. When that notification has
  \<^verbatim>\<open>is_task_complete\<close>, one artifact update follows it and is the last response;
  otherwise the final status update is the last response.
\<close>

theorem C1_one_final_status_update:
  assumes "are_modalities_compatible (acceptedOutputModes (params request))
             hiagent_SUPPORTED_CONTENT_TYPES"
    and "parts (params_message (params request)) = TextPart q # ps"
    and "agent_stream q (params_sessionId (params request)) = (ws @ [t], None)"
    and "\<forall>w\<in>set ws. \<not> is_terminal w"
    and "is_terminal t"
  shows "delivered are_modalities_compatible agent_stream request s =
           concat (map (item_responses (request_id request) (params_id (params request))) ws)
             @ status_response (request_id request) (params_id (params request))
                 (item_status t) True
             # (if is_task_complete t
                then [artifact_response (request_id request) (params_id (params request))
                        (item_artifact t)]
                else [])
         \<and> length (filter is_final
                      (delivered are_modalities_compatible agent_stream request s)) = 1"
proof -
  have run: "delivered are_modalities_compatible agent_stream request s =
               concat (map (item_responses (request_id request) (params_id (params request)))
                 (ws @ [t]))"
    using delivered_run [where are_modalities_compatible = are_modalities_compatible
        and agent_stream = agent_stream, OF assms(1) assms(2) assms(3)]
    by simp
  have last_round: "item_responses (request_id request) (params_id (params request)) t =
          status_response (request_id request) (params_id (params request)) (item_status t) True
            # (if is_task_complete t
               then [artifact_response (request_id request) (params_id (params request))
                       (item_artifact t)]
               else [])"
    using assms(5) by (simp add: item_responses_def)
  have one: "length (filter is_final
               (concat (map (item_responses (request_id request) (params_id (params request)))
                  (ws @ [t])))) = 1"
    using assms(4) assms(5)
    by (simp add: filter_final_nonterminal filter_final_item_responses)
  show ?thesis
    using one by (simp add: run last_round)
qed

theorem C1_one_final_status_update_witness:
  "delivered common_mode
     (stream_of [notification False False ''looking up...'', notification True False ''done'']
        None)
     (request_with [''text''] [TextPart ''42'']) empty_manager
   = [status_response ''r1'' ''t1''
        \<lparr>state = WORKING,
         status_message = Some \<lparr>role = ''agent'', parts = [TextPart ''looking up...'']\<rparr>\<rparr> False,
      status_response ''r1'' ''t1''
        \<lparr>state = COMPLETED,
         status_message = Some \<lparr>role = ''agent'', parts = [TextPart ''done'']\<rparr>\<rparr> True,
      artifact_response ''r1'' ''t1'' \<lparr>artifact_parts = [TextPart ''done'']\<rparr>]
   \<and> length (filter is_final (delivered common_mode
         (stream_of [notification False False ''looking up...'', notification True False ''done'']
            None)
         (request_with [''text''] [TextPart ''42'']) empty_manager)) = 1"
proof -
  have ok: "common_mode (acceptedOutputModes (params (request_with [''text''] [TextPart ''42''])))
              hiagent_SUPPORTED_CONTENT_TYPES"
    by (simp add: common_mode_def request_with_def hiagent_SUPPORTED_CONTENT_TYPES_def)
  have first: "parts (params_message (params (request_with [''text''] [TextPart ''42''])))
                 = TextPart ''42'' # []"
    by (simp add: request_with_def)
  have out: "stream_of [notification False False ''looking up...'',
                        notification True False ''done''] None ''42''
               (params_sessionId (params (request_with [''text''] [TextPart ''42''])))
             = ([notification False False ''looking up...''] @ [notification True False ''done''],
                None)"
    by (simp add: stream_of_def)
  have ws: "\<forall>w\<in>set [notification False False ''looking up...'']. \<not> is_terminal w"
    by (simp add: is_terminal_def notification_def)
  have t: "is_terminal (notification True False ''done'')"
    by (simp add: is_terminal_def notification_def)
  note c = C1_one_final_status_update [where are_modalities_compatible = common_mode
      and agent_stream = "stream_of [notification False False ''looking up...'',
                                     notification True False ''done''] None"
      and s = empty_manager, OF ok first out ws t]
  show ?thesis
    using c
    by (simp add: item_responses_def item_status_def item_state_def item_artifact_def
          is_terminal_def notification_def request_with_def)
qed

text \<open>
  C1 as stated fails: the artifact update is yielded after the status update that carries
  \<open>final = True\<close>, so the last response of the stream is not the final one.
\<close>

theorem C1_counterexample:
  "delivered common_mode (stream_of [notification True False ''done''] None)
     (request_with [''text''] [TextPart ''42'']) empty_manager
   = [status_response ''r1'' ''t1''
        \<lparr>state = COMPLETED,
         status_message = Some \<lparr>role = ''agent'', parts = [TextPart ''done'']\<rparr>\<rparr> True,
      artifact_response ''r1'' ''t1'' \<lparr>artifact_parts = [TextPart ''done'']\<rparr>]
   \<and> \<not> is_final (last (delivered common_mode (stream_of [notification True False ''done''] None)
                          (request_with [''text''] [TextPart ''42'']) empty_manager))
   \<and> is_artifact_update
        (last (delivered common_mode (stream_of [notification True False ''done''] None)
                 (request_with [''text''] [TextPart ''42'']) empty_manager))"
proof -
  have ok: "common_mode (acceptedOutputModes (params (request_with [''text''] [TextPart ''42''])))
              hiagent_SUPPORTED_CONTENT_TYPES"
    by (simp add: common_mode_def request_with_def hiagent_SUPPORTED_CONTENT_TYPES_def)
  have first: "parts (params_message (params (request_with [''text''] [TextPart ''42''])))
                 = TextPart ''42'' # []"
    by (simp add: request_with_def)
  have out: "stream_of [notification True False ''done''] None ''42''
               (params_sessionId (params (request_with [''text''] [TextPart ''42''])))
             = ([notification True False ''done''], None)"
    by (simp add: stream_of_def)
  note d = delivered_run [where are_modalities_compatible = common_mode
      and agent_stream = "stream_of [notification True False ''done''] None"
      and s = empty_manager, OF ok first out]
  have val: "delivered common_mode (stream_of [notification True False ''done''] None)
               (request_with [''text''] [TextPart ''42'']) empty_manager
             = [status_response ''r1'' ''t1''
                  \<lparr>state = COMPLETED,
                   status_message = Some \<lparr>role = ''agent'', parts = [TextPart ''done'']\<rparr>\<rparr> True,
                artifact_response ''r1'' ''t1'' \<lparr>artifact_parts = [TextPart ''done'']\<rparr>]"
    using d
    by (simp add: item_responses_def item_status_def item_state_def item_artifact_def
          is_terminal_def notification_def request_with_def)
  show ?thesis
    unfolding val by (simp add: is_artifact_update_def is_final_def artifact_response_def)
qed

subsection \<open>C2: the store after an adapter failure of a synchronous send\<close>

text \<open>
  C2, as the data analysis manager has it. When the adapter's \<^verbatim>\<open>invoke\<close> raises after
  the initial upsert, \<^verbatim>\<open>_invoke\<close> stores a task for the id whose status has the
  state \<open>error\<close> and no status message, whose message is the agent text
  \<^verbatim>\<open>Error: \<close> followed by the text of the exception, and whose artifact list is
  empty; the call raises \<^verbatim>\<open>ValueError\<close> with that text.
\<close>

theorem C2_crewai_error_task_stored:
  assumes "are_modalities_compatible (acceptedOutputModes (params request))
             crewai_SUPPORTED_CONTENT_TYPES"
    and "parts (params_message (params request)) = TextPart q # ps"
    and "agent_invoke q = Inl e"
  shows "fst (crewai_on_send_task are_modalities_compatible agent_invoke request c)
           = Inl (ValueError (''Error invoking agent: '' @ str e))
         \<and> crewai_get_task
             (snd (crewai_on_send_task are_modalities_compatible agent_invoke request c))
             (params_id (params request))
           = Some (AsTask
               \<lparr>task_id = params_id (params request),
                sessionId = None,
                status = \<lparr>state = ERROR, status_message = None\<rparr>,
                message = Some \<lparr>role = ''agent'', parts = [TextPart (''Error: '' @ str e)]\<rparr>,
                artifacts = Some []\<rparr>)"
proof -
  have query: "crewai_get_user_query (params request) = Inr q"
    using assms(2) by (simp add: crewai_get_user_query_def)
  show ?thesis
    unfolding crewai_on_send_task_accepted
      [where are_modalities_compatible = are_modalities_compatible, OF assms(1)]
    by (simp add: crewai_invoke_def query assms(3) crewai_upsert_task_def crewai_get_task_def
          Let_def)
qed

theorem C2_crewai_error_task_stored_witness:
  "fst (crewai_on_send_task common_mode (crew_raises (Exception ''backend unreachable''))
          (request_with [''text''] [TextPart ''42'']) empty_manager)
     = Inl (ValueError ''Error invoking agent: backend unreachable'')
   \<and> crewai_get_task
        (snd (crewai_on_send_task common_mode (crew_raises (Exception ''backend unreachable''))
                (request_with [''text''] [TextPart ''42'']) empty_manager)) ''t1''
     = Some (AsTask
         \<lparr>task_id = ''t1'', sessionId = None,
          status = \<lparr>state = ERROR, status_message = None\<rparr>,
          message = Some \<lparr>role = ''agent'',
                          parts = [TextPart ''Error: backend unreachable'']\<rparr>,
          artifacts = Some []\<rparr>)"
proof -
  have raises: "crew_raises (Exception ''backend unreachable'') ''42''
                  = Inl (Exception ''backend unreachable'')"
    by (simp add: crew_raises_def)
  note c = C2_crewai_error_task_stored [where are_modalities_compatible = common_mode
      and agent_invoke = "crew_raises (Exception ''backend unreachable'')"
      and c = empty_manager and ps = "[]" and q = "''42''"
      and request = "request_with [''text''] [TextPart ''42'']",
      OF request_with_text_crewai request_with_parts raises]
  show ?thesis
    using c by (simp add: request_with_ids)
qed

text \<open>
  C2 as stated fails. The data analysis manager stores the state \<open>error\<close> with no
  status message; the HiAgent manager writes nothing when \<^verbatim>\<open>invoke\<close> raises, and the
  store keeps the task of the initial upsert, in state \<open>working\<close>.
\<close>

theorem C2_counterexample:
  "map_option (\<lambda>t. case t of AsTask k \<Rightarrow> status k)
     (crewai_get_task
        (snd (crewai_on_send_task common_mode (crew_raises (Exception ''backend unreachable''))
                (request_with [''text''] [TextPart ''42'']) empty_manager)) ''t1'')
     = Some \<lparr>state = ERROR, status_message = None\<rparr>
   \<and> hiagent_on_send_task common_mode (invoke_raises (Exception ''backend unreachable''))
        (request_with [''text''] [TextPart ''42'']) empty_manager
     = (Inl (ValueError ''Error invoking agent: backend unreachable''),
        hiagent_upsert_task empty_manager
          (AsParams (params (request_with [''text''] [TextPart ''42'']))))
   \<and> map_option status
        (hiagent_get_task
           (snd (hiagent_on_send_task common_mode
                   (invoke_raises (Exception ''backend unreachable''))
                   (request_with [''text''] [TextPart ''42'']) empty_manager)) ''t1'')
     = Some \<lparr>state = WORKING, status_message = None\<rparr>"
proof -
  have query: "crewai_get_user_query (params (request_with [''text''] [TextPart ''42'']))
                 = Inr ''42''"
    "hiagent_get_user_query (params (request_with [''text''] [TextPart ''42''])) = Inr ''42''"
    by (simp_all add: crewai_get_user_query_def hiagent_get_user_query_def request_with_def)
  have crew: "map_option (\<lambda>t. case t of AsTask k \<Rightarrow> status k)
     (crewai_get_task
        (snd (crewai_on_send_task common_mode (crew_raises (Exception ''backend unreachable''))
                (request_with [''text''] [TextPart ''42'']) empty_manager)) ''t1'')
     = Some \<lparr>state = ERROR, status_message = None\<rparr>"
    unfolding crewai_on_send_task_accepted
      [where are_modalities_compatible = common_mode, OF request_with_text_crewai]
    by (simp add: crewai_invoke_def query crew_raises_def crewai_upsert_task_def
          crewai_get_task_def request_with_ids Let_def)
  have hi: "hiagent_on_send_task common_mode (invoke_raises (Exception ''backend unreachable''))
        (request_with [''text''] [TextPart ''42'']) empty_manager
     = (Inl (ValueError ''Error invoking agent: backend unreachable''),
        hiagent_upsert_task empty_manager
          (AsParams (params (request_with [''text''] [TextPart ''42'']))))"
    unfolding hiagent_on_send_task_accepted
      [where are_modalities_compatible = common_mode, OF request_with_text_hiagent]
    by (simp add: query invoke_raises_def)
  have kept: "map_option status
        (hiagent_get_task
           (snd (hiagent_on_send_task common_mode
                   (invoke_raises (Exception ''backend unreachable''))
                   (request_with [''text''] [TextPart ''42'']) empty_manager)) ''t1'')
     = Some \<lparr>state = WORKING, status_message = None\<rparr>"
    unfolding hi
    by (simp add: hiagent_get_task_def hiagent_upsert_params request_with_ids initial_task_def)
  from crew hi kept show ?thesis by simp
qed

subsection \<open>C3: the order of the stored states\<close>

text \<open>
  C3, as the code has it. The streaming send writes the state \<open>working\<close> at the initial
  upsert and then the state of each notification in turn. When the adapter yields no
  notification after its first terminal one, the states written are non-decreasing in
  the order submitted < working < {completed, error, input-required}. So are the states
  a synchronous send writes, whatever the adapter does.
  \<^verbatim>\<open>_update_store\<close> itself compares nothing with the stored state.
\<close>

theorem C3_states_non_decreasing:
  assumes "are_modalities_compatible (acceptedOutputModes (params request))
             hiagent_SUPPORTED_CONTENT_TYPES"
    and "parts (params_message (params request)) = TextPart q # ps"
    and "agent_stream q (params_sessionId (params request)) = (items, fin)"
    and "no_item_after_terminal items"
  shows "stored_states are_modalities_compatible agent_stream request s
           = WORKING # map item_state items
         \<and> sorted_wrt state_le
             (stored_states are_modalities_compatible agent_stream request s)
         \<and> sorted_wrt state_le
             (written_states (params_id (params request))
                (new_effects s
                   (snd (hiagent_on_send_task are_modalities_compatible agent_invoke
                           request s))))"
proof -
  have run: "stored_states are_modalities_compatible agent_stream request s
               = WORKING # map item_state items"
    by (rule stored_states_run [where are_modalities_compatible = are_modalities_compatible
          and agent_stream = agent_stream, OF assms(1) assms(2) assms(3)])
  have stream: "sorted_wrt state_le (WORKING # map item_state items)"
    using sorted_states_contract [OF assms(4)] by (simp add: state_le_WORKING_item)
  have sync: "sorted_wrt state_le
             (written_states (params_id (params request))
                (new_effects s
                   (snd (hiagent_on_send_task are_modalities_compatible agent_invoke
                           request s))))"
    unfolding hiagent_on_send_task_states
      [where are_modalities_compatible = are_modalities_compatible, OF assms(1)]
    by (simp add: state_le_def split: sum.splits)
  from run stream sync show ?thesis by simp
qed

theorem C3_states_non_decreasing_witness:
  "stored_states common_mode
     (stream_of [notification False False ''looking up...'', notification True False ''done'']
        None)
     (request_with [''text''] [TextPart ''42'']) empty_manager
   = [WORKING, WORKING, COMPLETED]
   \<and> sorted_wrt state_le (stored_states common_mode
        (stream_of [notification False False ''looking up...'', notification True False ''done'']
           None)
        (request_with [''text''] [TextPart ''42'']) empty_manager)
   \<and> sorted_wrt state_le
        (written_states ''t1''
           (new_effects empty_manager
              (snd (hiagent_on_send_task common_mode
                      (invoke_returns (notification True False ''done''))
                      (request_with [''text''] [TextPart ''42'']) empty_manager))))"
proof -
  have contract: "no_item_after_terminal
      [notification False False ''looking up...'', notification True False ''done'']"
    by (simp add: is_terminal_def notification_def)
  note c = C3_states_non_decreasing [where are_modalities_compatible = common_mode
      and agent_stream = "stream_of [notification False False ''looking up...'',
                                     notification True False ''done''] None"
      and s = empty_manager and ps = "[]" and q = "''42''"
      and request = "request_with [''text''] [TextPart ''42'']"
      and agent_invoke = "invoke_returns (notification True False ''done'')",
      OF request_with_text_hiagent request_with_parts stream_of_out contract]
  show ?thesis
    using c by (simp add: item_state_def notification_def state_le_def request_with_ids)
qed

text \<open>
  C3 as stated fails: a notification that follows a terminal one is written like any
  other, and the stored state goes from \<open>completed\<close> back to \<open>working\<close>.
\<close>

theorem C3_counterexample:
  "stored_states common_mode
     (stream_of [notification True False ''done'', notification False False ''still busy''] None)
     (request_with [''text''] [TextPart ''42'']) empty_manager
   = [WORKING, COMPLETED, WORKING]
   \<and> \<not> sorted_wrt state_le (stored_states common_mode
        (stream_of [notification True False ''done'', notification False False ''still busy'']
           None)
        (request_with [''text''] [TextPart ''42'']) empty_manager)
   \<and> map_option (\<lambda>t. state (status t))
        (hiagent_get_task
           (snd (hiagent_on_send_task_subscribe common_mode
                   (stream_of [notification True False ''done'',
                               notification False False ''still busy''] None)
                   (request_with [''text''] [TextPart ''42'']) empty_manager)) ''t1'')
       = Some WORKING"
proof -
  note r = stored_states_run [where are_modalities_compatible = common_mode
      and agent_stream = "stream_of [notification True False ''done'',
                                     notification False False ''still busy''] None"
      and s = empty_manager and ps = "[]" and q = "''42''"
      and request = "request_with [''text''] [TextPart ''42'']",
      OF request_with_text_hiagent request_with_parts stream_of_out]
  have val: "stored_states common_mode
     (stream_of [notification True False ''done'', notification False False ''still busy''] None)
     (request_with [''text''] [TextPart ''42'']) empty_manager
   = [WORKING, COMPLETED, WORKING]"
    using r by (simp add: item_state_def notification_def)
  note k = hiagent_subscribe_run(3) [where are_modalities_compatible = common_mode
      and agent_stream = "stream_of [notification True False ''done'',
                                     notification False False ''still busy''] None"
      and s = empty_manager and ps = "[]" and q = "''42''"
      and request = "request_with [''text''] [TextPart ''42'']",
      OF request_with_text_hiagent request_with_parts stream_of_out]
  have fin: "map_option (\<lambda>t. state (status t))
        (hiagent_get_task
           (snd (hiagent_on_send_task_subscribe common_mode
                   (stream_of [notification True False ''done'',
                               notification False False ''still busy''] None)
                   (request_with [''text''] [TextPart ''42'']) empty_manager)) ''t1'')
       = Some WORKING"
    unfolding hiagent_get_task_def k
    by (simp add: request_with_ids item_task_state item_state_def notification_def)
  show ?thesis
    unfolding val using fin by (simp add: state_le_def)
qed

subsection \<open>C4: how much of the adapter stream is consumed\<close>

text \<open>
  C4, as the code has it. The loop marks the status update of every terminal notification
  with \<open>final = True\<close> and goes on until the adapter stream ends or raises: each
  notification of the whole stream, also one after the first terminal notification,
  gives one store write and one status update, and the task stored at the end is the
  initial task updated by all of them.
\<close>

theorem C4_whole_stream_consumed:
  assumes "are_modalities_compatible (acceptedOutputModes (params request))
             hiagent_SUPPORTED_CONTENT_TYPES"
    and "parts (params_message (params request)) = TextPart q # ps"
    and "agent_stream q (params_sessionId (params request)) = (items, fin)"
  shows "filter is_status_update (delivered are_modalities_compatible agent_stream request s)
           = map (\<lambda>it. status_response (request_id request) (params_id (params request))
                          (item_status it) (is_terminal it)) items
         \<and> stored_states are_modalities_compatible agent_stream request s
             = WORKING # map item_state items
         \<and> hiagent_get_task
             (snd (hiagent_on_send_task_subscribe are_modalities_compatible agent_stream
                     request s))
             (params_id (params request))
             = Some (foldl item_task (initial_task (params request)) items)"
proof -
  have d: "delivered are_modalities_compatible agent_stream request s =
           concat (map (item_responses (request_id request) (params_id (params request))) items)
             @ (case fin of None \<Rightarrow> [] | Some e \<Rightarrow> [error_response (request_id request) e])"
    by (rule delivered_run [where are_modalities_compatible = are_modalities_compatible
          and agent_stream = agent_stream, OF assms])
  have updates: "filter is_status_update
                   (delivered are_modalities_compatible agent_stream request s)
           = map (\<lambda>it. status_response (request_id request) (params_id (params request))
                          (item_status it) (is_terminal it)) items"
    unfolding d by (cases fin) (simp_all add: filter_status_items)
  have states: "stored_states are_modalities_compatible agent_stream request s
             = WORKING # map item_state items"
    by (rule stored_states_run [where are_modalities_compatible = are_modalities_compatible
          and agent_stream = agent_stream, OF assms])
  have kept: "hiagent_get_task
             (snd (hiagent_on_send_task_subscribe are_modalities_compatible agent_stream
                     request s))
             (params_id (params request))
             = Some (foldl item_task (initial_task (params request)) items)"
    unfolding hiagent_get_task_def
      hiagent_subscribe_run(3) [where are_modalities_compatible = are_modalities_compatible
          and agent_stream = agent_stream, OF assms]
    by simp
  from updates states kept show ?thesis by simp
qed

theorem C4_whole_stream_consumed_witness:
  "filter is_status_update
     (delivered common_mode
        (stream_of [notification True False ''done'', notification False False ''still busy'']
           None)
        (request_with [''text''] [TextPart ''42'']) empty_manager)
   = [status_response ''r1'' ''t1''
        \<lparr>state = COMPLETED,
         status_message = Some \<lparr>role = ''agent'', parts = [TextPart ''done'']\<rparr>\<rparr> True,
      status_response ''r1'' ''t1''
        \<lparr>state = WORKING,
         status_message = Some \<lparr>role = ''agent'', parts = [TextPart ''still busy'']\<rparr>\<rparr> False]
   \<and> stored_states common_mode
        (stream_of [notification True False ''done'', notification False False ''still busy'']
           None)
        (request_with [''text''] [TextPart ''42'']) empty_manager
       = [WORKING, COMPLETED, WORKING]
   \<and> hiagent_get_task
        (snd (hiagent_on_send_task_subscribe common_mode
                (stream_of [notification True False ''done'',
                            notification False False ''still busy''] None)
                (request_with [''text''] [TextPart ''42'']) empty_manager)) ''t1''
       = Some \<lparr>task_id = ''t1'', sessionId = Some ''s1'',
                 status = \<lparr>state = WORKING,
                            status_message = Some \<lparr>role = ''agent'',
                                                    parts = [TextPart ''still busy'']\<rparr>\<rparr>,
                 message = Some \<lparr>role = ''user'', parts = [TextPart ''42'']\<rparr>,
                 artifacts = Some [\<lparr>artifact_parts = [TextPart ''done'']\<rparr>]\<rparr>"
proof -
  note c = C4_whole_stream_consumed [where are_modalities_compatible = common_mode
      and agent_stream = "stream_of [notification True False ''done'',
                                     notification False False ''still busy''] None"
      and s = empty_manager and ps = "[]" and q = "''42''"
      and request = "request_with [''text''] [TextPart ''42'']",
      OF request_with_text_hiagent request_with_parts stream_of_out]
  show ?thesis
    using c
    by (simp add: request_with_ids item_status_def item_state_def item_task_def
          item_artifact_def initial_task_def is_terminal_def notification_def request_with_def)
qed

text \<open>
  C4 as stated fails: two adapter streams that agree up to and including the first
  terminal notification give different responses and different store writes.
\<close>

theorem C4_counterexample:
  "prefix_to_first_terminal
     [notification True False ''done'', notification False False ''still busy'']
     = prefix_to_first_terminal [notification True False ''done'']
   \<and> delivered common_mode
        (stream_of [notification True False ''done'', notification False False ''still busy'']
           None)
        (request_with [''text''] [TextPart ''42'']) empty_manager
      \<noteq> delivered common_mode (stream_of [notification True False ''done''] None)
          (request_with [''text''] [TextPart ''42'']) empty_manager
   \<and> stored_states common_mode
        (stream_of [notification True False ''done'', notification False False ''still busy'']
           None)
        (request_with [''text''] [TextPart ''42'']) empty_manager
      \<noteq> stored_states common_mode (stream_of [notification True False ''done''] None)
          (request_with [''text''] [TextPart ''42'']) empty_manager"
proof -
  note d2 = delivered_run [where are_modalities_compatible = common_mode
      and agent_stream = "stream_of [notification True False ''done'',
                                     notification False False ''still busy''] None"
      and s = empty_manager and ps = "[]" and q = "''42''"
      and request = "request_with [''text''] [TextPart ''42'']",
      OF request_with_text_hiagent request_with_parts stream_of_out]
  note d1 = delivered_run [where are_modalities_compatible = common_mode
      and agent_stream = "stream_of [notification True False ''done''] None"
      and s = empty_manager and ps = "[]" and q = "''42''"
      and request = "request_with [''text''] [TextPart ''42'']",
      OF request_with_text_hiagent request_with_parts stream_of_out]
  note s2 = stored_states_run [where are_modalities_compatible = common_mode
      and agent_stream = "stream_of [notification True False ''done'',
                                     notification False False ''still busy''] None"
      and s = empty_manager and ps = "[]" and q = "''42''"
      and request = "request_with [''text''] [TextPart ''42'']",
      OF request_with_text_hiagent request_with_parts stream_of_out]
  note s1 = stored_states_run [where are_modalities_compatible = common_mode
      and agent_stream = "stream_of [notification True False ''done''] None"
      and s = empty_manager and ps = "[]" and q = "''42''"
      and request = "request_with [''text''] [TextPart ''42'']",
      OF request_with_text_hiagent request_with_parts stream_of_out]
  have p: "prefix_to_first_terminal
     [notification True False ''done'', notification False False ''still busy'']
     = prefix_to_first_terminal [notification True False ''done'']"
    by (simp add: is_terminal_def notification_def)
  have d: "delivered common_mode
        (stream_of [notification True False ''done'', notification False False ''still busy'']
           None)
        (request_with [''text''] [TextPart ''42'']) empty_manager
      \<noteq> delivered common_mode (stream_of [notification True False ''done''] None)
          (request_with [''text''] [TextPart ''42'']) empty_manager"
    unfolding d1 d2 by (simp add: item_responses_def)
  have w: "stored_states common_mode
        (stream_of [notification True False ''done'', notification False False ''still busy'']
           None)
        (request_with [''text''] [TextPart ''42'']) empty_manager
      \<noteq> stored_states common_mode (stream_of [notification True False ''done''] None)
          (request_with [''text''] [TextPart ''42'']) empty_manager"
    unfolding s1 s2 by simp
  from p d w show ?thesis by simp
qed

subsection \<open>C5: a modality mismatch is answered at once and leaves the store alone\<close>

text \<open>
  C5. For every request whose accepted output modes are incompatible with the adapter's
  supported content types, \<^verbatim>\<open>on_send_task\<close> and \<^verbatim>\<open>on_send_task_subscribe\<close>
  return the incompatible-types error result and the manager state is the one before the
  call: no write is made, so a task id that had no entry has none afterwards. (The data
  analysis manager implements only \<^verbatim>\<open>on_send_task\<close>.)
\<close>

theorem C5_modality_mismatch:
  "(\<not> are_modalities_compatible (acceptedOutputModes (params request))
          hiagent_SUPPORTED_CONTENT_TYPES \<longrightarrow>
      hiagent_on_send_task are_modalities_compatible agent_invoke request s
        = (Inr (new_incompatible_types_error (request_id request)), s)
      \<and> hiagent_on_send_task_subscribe are_modalities_compatible agent_stream request s
        = (Inl (new_incompatible_types_error (request_id request)), s)
      \<and> (hiagent_get_task s tid = None \<longrightarrow>
           hiagent_get_task (snd (hiagent_on_send_task are_modalities_compatible
                                    agent_invoke request s)) tid = None
           \<and> hiagent_get_task (snd (hiagent_on_send_task_subscribe are_modalities_compatible
                                      agent_stream request s)) tid = None))
   \<and> (\<not> are_modalities_compatible (acceptedOutputModes (params request))
            crewai_SUPPORTED_CONTENT_TYPES \<longrightarrow>
      crewai_on_send_task are_modalities_compatible crew_invoke request c
        = (Inr (new_incompatible_types_error (request_id request)), c)
      \<and> (crewai_get_task c tid = None \<longrightarrow>
           crewai_get_task (snd (crewai_on_send_task are_modalities_compatible
                                   crew_invoke request c)) tid = None))"
  by (simp add: hiagent_on_send_task_def hiagent_on_send_task_subscribe_def
        hiagent_validate_request_def crewai_on_send_task_def)

theorem C5_modality_mismatch_witness:
  "\<not> common_mode (Some [''image/png'']) hiagent_SUPPORTED_CONTENT_TYPES
   \<and> \<not> common_mode (Some [''image/png'']) crewai_SUPPORTED_CONTENT_TYPES
   \<and> hiagent_on_send_task common_mode (invoke_returns (notification True False ''done''))
        (request_with [''image/png''] [TextPart ''42'']) empty_manager
       = (Inr (new_incompatible_types_error ''r1''), empty_manager)
   \<and> hiagent_on_send_task_subscribe common_mode
        (stream_of [notification True False ''done''] None)
        (request_with [''image/png''] [TextPart ''42'']) empty_manager
       = (Inl (new_incompatible_types_error ''r1''), empty_manager)
   \<and> hiagent_get_task (snd (hiagent_on_send_task common_mode
        (invoke_returns (notification True False ''done''))
        (request_with [''image/png''] [TextPart ''42'']) empty_manager)) ''t1'' = None
   \<and> crewai_on_send_task common_mode (crew_returns ''done'')
        (request_with [''image/png''] [TextPart ''42'']) empty_manager
       = (Inr (new_incompatible_types_error ''r1''), empty_manager)
   \<and> crewai_get_task (snd (crewai_on_send_task common_mode (crew_returns ''done'')
        (request_with [''image/png''] [TextPart ''42'']) empty_manager)) ''t1'' = None"
proof -
  have h: "\<not> common_mode (Some [''image/png'']) hiagent_SUPPORTED_CONTENT_TYPES"
    by (simp add: common_mode_def hiagent_SUPPORTED_CONTENT_TYPES_def)
  have c: "\<not> common_mode (Some [''image/png'']) crewai_SUPPORTED_CONTENT_TYPES"
    by (simp add: common_mode_def crewai_SUPPORTED_CONTENT_TYPES_def)
  have m: "acceptedOutputModes (params (request_with [''image/png''] [TextPart ''42'']))
             = Some [''image/png'']"
    and r: "request_id (request_with [''image/png''] [TextPart ''42'']) = ''r1''"
    by (simp_all add: request_with_def)
  have e1: "hiagent_get_task empty_manager ''t1'' = None"
    by (simp add: hiagent_get_task_def empty_manager_def)
  have e2: "crewai_get_task empty_manager ''t1'' = None"
    by (simp add: crewai_get_task_def empty_manager_def)
  note t = C5_modality_mismatch [of common_mode "request_with [''image/png''] [TextPart ''42'']"
      "invoke_returns (notification True False ''done'')" empty_manager
      "stream_of [notification True False ''done''] None" "''t1''"
      "crew_returns ''done''" empty_manager]
  show ?thesis using t h c e1 e2 by (simp add: m r)
qed

subsection \<open>C6: the state stored by the initial upsert\<close>

text \<open>
  C6, as the code has it. For every accepted request the first write of
  \<^verbatim>\<open>on_send_task\<close> and of \<^verbatim>\<open>on_send_task_subscribe\<close> is the initial upsert.
  The HiAgent manager stores a task in state \<open>working\<close>, which is what
  \<^verbatim>\<open>get_task\<close> gives until the next write; the data analysis manager stores the
  request's parameters as they are, an object without a status.
\<close>

theorem C6_initial_upsert:
  "(are_modalities_compatible (acceptedOutputModes (params request))
      hiagent_SUPPORTED_CONTENT_TYPES \<longrightarrow>
      take 1 (new_effects s
                (snd (hiagent_on_send_task are_modalities_compatible agent_invoke request s)))
        = [Write (params_id (params request)) (initial_task (params request))]
      \<and> take 1 (new_effects s
                  (snd (hiagent_on_send_task_subscribe are_modalities_compatible agent_stream
                          request s)))
        = [Write (params_id (params request)) (initial_task (params request))]
      \<and> hiagent_get_task (hiagent_upsert_task s (AsParams (params request)))
          (params_id (params request))
        = Some (initial_task (params request))
      \<and> status (initial_task (params request)) = \<lparr>state = WORKING, status_message = None\<rparr>)
   \<and> (are_modalities_compatible (acceptedOutputModes (params request))
        crewai_SUPPORTED_CONTENT_TYPES \<longrightarrow>
      take 1 (new_effects c
                (snd (crewai_on_send_task are_modalities_compatible crew_invoke request c)))
        = [Write (params_id (params request)) (AsParams (params request))]
      \<and> crewai_get_task (crewai_upsert_task c (AsParams (params request)))
          (params_id (params request))
        = Some (AsParams (params request)))"
proof (intro conjI impI)
  assume ok: "are_modalities_compatible (acceptedOutputModes (params request))
                hiagent_SUPPORTED_CONTENT_TYPES"
  show "take 1 (new_effects s
                (snd (hiagent_on_send_task are_modalities_compatible agent_invoke request s)))
        = [Write (params_id (params request)) (initial_task (params request))]"
    by (rule hiagent_on_send_task_first_write
          [where are_modalities_compatible = are_modalities_compatible, OF ok])
  show "take 1 (new_effects s
                  (snd (hiagent_on_send_task_subscribe are_modalities_compatible agent_stream
                          request s)))
        = [Write (params_id (params request)) (initial_task (params request))]"
    by (rule hiagent_on_send_task_subscribe_first_write
          [where are_modalities_compatible = are_modalities_compatible, OF ok])
next
  show "hiagent_get_task (hiagent_upsert_task s (AsParams (params request)))
          (params_id (params request))
        = Some (initial_task (params request))"
    by (rule hiagent_get_task_upsert)
  show "status (initial_task (params request)) = \<lparr>state = WORKING, status_message = None\<rparr>"
    by (simp add: initial_task_def)
next
  assume ok: "are_modalities_compatible (acceptedOutputModes (params request))
                crewai_SUPPORTED_CONTENT_TYPES"
  show "take 1 (new_effects c
                (snd (crewai_on_send_task are_modalities_compatible crew_invoke request c)))
        = [Write (params_id (params request)) (AsParams (params request))]"
    by (rule crewai_on_send_task_first_write
          [where are_modalities_compatible = are_modalities_compatible, OF ok])
next
  show "crewai_get_task (crewai_upsert_task c (AsParams (params request)))
          (params_id (params request))
        = Some (AsParams (params request))"
    by (simp add: crewai_get_task_def crewai_upsert_params)
qed

theorem C6_initial_upsert_witness:
  "take 1 (new_effects empty_manager
             (snd (hiagent_on_send_task common_mode
                     (invoke_returns (notification True False ''done''))
                     (request_with [''text''] [TextPart ''42'']) empty_manager)))
     = [Write ''t1''
          \<lparr>task_id = ''t1'', sessionId = Some ''s1'',
           status = \<lparr>state = WORKING, status_message = None\<rparr>,
           message = Some \<lparr>role = ''user'', parts = [TextPart ''42'']\<rparr>,
           artifacts = None\<rparr>]
   \<and> take 1 (new_effects empty_manager
               (snd (hiagent_on_send_task_subscribe common_mode
                       (stream_of [notification True False ''done''] None)
                       (request_with [''text''] [TextPart ''42'']) empty_manager)))
     = [Write ''t1''
          \<lparr>task_id = ''t1'', sessionId = Some ''s1'',
           status = \<lparr>state = WORKING, status_message = None\<rparr>,
           message = Some \<lparr>role = ''user'', parts = [TextPart ''42'']\<rparr>,
           artifacts = None\<rparr>]
   \<and> take 1 (new_effects empty_manager
               (snd (crewai_on_send_task common_mode (crew_returns ''done'')
                       (request_with [''text''] [TextPart ''42'']) empty_manager)))
     = [Write ''t1'' (AsParams (params (request_with [''text''] [TextPart ''42''])))]"
proof -
  note c = C6_initial_upsert [of common_mode "request_with [''text''] [TextPart ''42'']"
      empty_manager "invoke_returns (notification True False ''done'')"
      "stream_of [notification True False ''done''] None" empty_manager
      "crew_returns ''done''"]
  have init: "initial_task (params (request_with [''text''] [TextPart ''42''])) =
          \<lparr>task_id = ''t1'', sessionId = Some ''s1'',
           status = \<lparr>state = WORKING, status_message = None\<rparr>,
           message = Some \<lparr>role = ''user'', parts = [TextPart ''42'']\<rparr>,
           artifacts = None\<rparr>"
    by (simp add: initial_task_def request_with_def)
  show ?thesis
    using c request_with_text_hiagent [of "[TextPart ''42'']"]
      request_with_text_crewai [of "[TextPart ''42'']"]
    by (simp add: request_with_ids init)
qed

text \<open>
  C6 as stated fails: the initial upsert of the HiAgent manager stores the state
  \<open>working\<close>, and no write of a synchronous send stores \<open>submitted\<close>.
\<close>

theorem C6_counterexample:
  "map_option (\<lambda>t. state (status t))
     (hiagent_get_task
        (hiagent_upsert_task empty_manager
           (AsParams (params (request_with [''text''] [TextPart ''42''])))) ''t1'')
     = Some WORKING
   \<and> written_states ''t1''
        (new_effects empty_manager
           (snd (hiagent_on_send_task common_mode
                   (invoke_returns (notification True False ''done''))
                   (request_with [''text''] [TextPart ''42'']) empty_manager)))
     = [WORKING, COMPLETED]"
proof -
  have query: "hiagent_get_user_query (params (request_with [''text''] [TextPart ''42'']))
                 = Inr ''42''"
    by (simp add: hiagent_get_user_query_def request_with_def)
  have first: "map_option (\<lambda>t. state (status t))
     (hiagent_get_task
        (hiagent_upsert_task empty_manager
           (AsParams (params (request_with [''text''] [TextPart ''42''])))) ''t1'')
     = Some WORKING"
    by (simp add: hiagent_get_task_def hiagent_upsert_params request_with_ids initial_task_def)
  have run: "written_states ''t1''
        (new_effects empty_manager
           (snd (hiagent_on_send_task common_mode
                   (invoke_returns (notification True False ''done''))
                   (request_with [''text''] [TextPart ''42'']) empty_manager)))
     = [WORKING, COMPLETED]"
    unfolding hiagent_on_send_task_accepted
      [where are_modalities_compatible = common_mode, OF request_with_text_hiagent]
    by (simp add: query invoke_returns_def notification_def new_effects_def empty_manager_def
          request_with_ids initial_task_def)
  from first run show ?thesis by simp
qed

subsection \<open>C7: waiting for the remote process\<close>

text \<open>
  C7. With a poll that reports \<^verbatim>\<open>processing\<close> on each of its first \<open>n\<close> calls,
  \<^verbatim>\<open>_wait_for_process\<close> with \<open>max_retries = n\<close> (the claim's 5 in particular)
  raises the timeout error after exactly \<open>n\<close> queries, each followed by a sleep of 2.
  When the poll reports \<^verbatim>\<open>success\<close> at call \<open>k < n\<close> after \<open>k\<close> times
  \<^verbatim>\<open>processing\<close>, the response is returned; when it reports any other status, the
  failure carrying that status is raised. In both cases that query is the last action.
\<close>

theorem C7_wait_for_process:
  "((\<forall>i<n. processing_at query_process run_id i) \<longrightarrow>
      wait_for_process query_process run_id (int n) =
        (Inl (TimeoutError ''Process did not complete within the expected time''),
         concat (replicate n [QueryProcess run_id, Sleep 2])))
   \<and> ((\<forall>i<k. processing_at query_process run_id i) \<and> k < n
         \<and> query_process run_id k = Inr pd \<and> process_status pd = ''success'' \<longrightarrow>
      wait_for_process query_process run_id (int n) =
        (Inr pd, concat (replicate k [QueryProcess run_id, Sleep 2]) @ [QueryProcess run_id]))
   \<and> ((\<forall>i<k. processing_at query_process run_id i) \<and> k < n
         \<and> query_process run_id k = Inr pd \<and> process_status pd \<noteq> ''success''
         \<and> process_status pd \<noteq> ''processing'' \<longrightarrow>
      wait_for_process query_process run_id (int n) =
        (Inl (ValueError (''Process failed with status: '' @ process_status pd)),
         concat (replicate k [QueryProcess run_id, Sleep 2]) @ [QueryProcess run_id]))"
proof (intro conjI impI)
  assume "\<forall>i<n. processing_at query_process run_id i"
  then have "wait_attempts query_process run_id 0 (n + 0) =
       (fst (wait_attempts query_process run_id (0 + n) 0),
        concat (replicate n [QueryProcess run_id, Sleep 2])
          @ snd (wait_attempts query_process run_id (0 + n) 0))"
    by (intro wait_attempts_processing) simp
  then show "wait_for_process query_process run_id (int n) =
        (Inl (TimeoutError ''Process did not complete within the expected time''),
         concat (replicate n [QueryProcess run_id, Sleep 2]))"
    by (simp add: wait_for_process_def)
next
  assume a: "(\<forall>i<k. processing_at query_process run_id i) \<and> k < n
         \<and> query_process run_id k = Inr pd \<and> process_status pd = ''success''"
  then have "k < n" by (rule conjunct1 [OF conjunct2])
  then obtain m where n: "n = k + Suc m"
    by (auto dest: less_imp_Suc_add)
  from a have pre: "wait_attempts query_process run_id 0 (k + Suc m) =
       (fst (wait_attempts query_process run_id (0 + k) (Suc m)),
        concat (replicate k [QueryProcess run_id, Sleep 2])
          @ snd (wait_attempts query_process run_id (0 + k) (Suc m)))"
    by (intro wait_attempts_processing) simp
  from a have at: "wait_attempts query_process run_id (0 + k) (Suc m) =
       (Inr pd, [QueryProcess run_id])"
    by simp
  show "wait_for_process query_process run_id (int n) =
        (Inr pd, concat (replicate k [QueryProcess run_id, Sleep 2]) @ [QueryProcess run_id])"
    by (simp only: wait_for_process_def nat_int n pre at fst_conv snd_conv)
next
  assume a: "(\<forall>i<k. processing_at query_process run_id i) \<and> k < n
         \<and> query_process run_id k = Inr pd \<and> process_status pd \<noteq> ''success''
         \<and> process_status pd \<noteq> ''processing''"
  then have "k < n" by (rule conjunct1 [OF conjunct2])
  then obtain m where n: "n = k + Suc m"
    by (auto dest: less_imp_Suc_add)
  from a have pre: "wait_attempts query_process run_id 0 (k + Suc m) =
       (fst (wait_attempts query_process run_id (0 + k) (Suc m)),
        concat (replicate k [QueryProcess run_id, Sleep 2])
          @ snd (wait_attempts query_process run_id (0 + k) (Suc m)))"
    by (intro wait_attempts_processing) simp
  from a have at: "wait_attempts query_process run_id (0 + k) (Suc m) =
       (Inl (ValueError (''Process failed with status: '' @ process_status pd)),
        [QueryProcess run_id])"
    by simp
  show "wait_for_process query_process run_id (int n) =
        (Inl (ValueError (''Process failed with status: '' @ process_status pd)),
         concat (replicate k [QueryProcess run_id, Sleep 2]) @ [QueryProcess run_id])"
    by (simp only: wait_for_process_def nat_int n pre at fst_conv snd_conv)
qed

theorem C7_wait_for_process_witness:
  "wait_for_process always_processing ''run'' 5 =
        (Inl (TimeoutError ''Process did not complete within the expected time''),
         [QueryProcess ''run'', Sleep 2, QueryProcess ''run'', Sleep 2, QueryProcess ''run'',
          Sleep 2, QueryProcess ''run'', Sleep 2, QueryProcess ''run'', Sleep 2])
   \<and> wait_for_process (ends_with ''success'') ''run'' 5 =
        (Inr \<lparr>process_status = ''success'', process_nodes = ''nodes''\<rparr>,
         [QueryProcess ''run'', Sleep 2, QueryProcess ''run'', Sleep 2, QueryProcess ''run''])
   \<and> wait_for_process (ends_with ''failed'') ''run'' 5 =
        (Inl (ValueError ''Process failed with status: failed''),
         [QueryProcess ''run'', Sleep 2, QueryProcess ''run'', Sleep 2, QueryProcess ''run''])"
proof -
  have p: "\<forall>i<5. processing_at always_processing ''run'' i"
    by (simp add: processing_at_def always_processing_def)
  have p2: "\<And>st. \<forall>i<2. processing_at (ends_with st) ''run'' i"
    by (simp add: processing_at_def ends_with_def)
  have five: "replicate 5 [QueryProcess ''run'', Sleep 2] =
     [[QueryProcess ''run'', Sleep 2], [QueryProcess ''run'', Sleep 2],
      [QueryProcess ''run'', Sleep 2], [QueryProcess ''run'', Sleep 2],
      [QueryProcess ''run'', Sleep 2]]"
    by (simp add: numeral_eq_Suc)
  have two: "replicate 2 [QueryProcess ''run'', Sleep 2] =
     [[QueryProcess ''run'', Sleep 2], [QueryProcess ''run'', Sleep 2]]"
    by (simp add: numeral_eq_Suc)
  note c = C7_wait_for_process [of 5 always_processing "''run''"]
  note s = C7_wait_for_process [of 5 "ends_with ''success''" "''run''" 2
              "\<lparr>process_status = ''success'', process_nodes = ''nodes''\<rparr>"]
  note f = C7_wait_for_process [of 5 "ends_with ''failed''" "''run''" 2
              "\<lparr>process_status = ''failed'', process_nodes = ''nodes''\<rparr>"]
  have c1: "wait_for_process always_processing ''run'' 5 =
        (Inl (TimeoutError ''Process did not complete within the expected time''),
         concat (replicate 5 [QueryProcess ''run'', Sleep 2]))"
    using c p by simp
  have s1: "wait_for_process (ends_with ''success'') ''run'' 5 =
        (Inr \<lparr>process_status = ''success'', process_nodes = ''nodes''\<rparr>,
         concat (replicate 2 [QueryProcess ''run'', Sleep 2]) @ [QueryProcess ''run''])"
    using s p2 [of "''success''"] by (simp add: ends_with_def)
  have f1: "wait_for_process (ends_with ''failed'') ''run'' 5 =
        (Inl (ValueError ''Process failed with status: failed''),
         concat (replicate 2 [QueryProcess ''run'', Sleep 2]) @ [QueryProcess ''run''])"
    using f p2 [of "''failed''"] by (simp add: ends_with_def)
  show ?thesis using c1 s1 f1 by (simp add: five two)
qed

subsection \<open>C8: an adapter stream that raises\<close>

text \<open>
  C8, as the code has it. When the adapter stream raises, the \<^verbatim>\<open>except\<close> branch
  yields one JSON-RPC error response carrying \<^verbatim>\<open>InternalError\<close> with the message
  of the exception. It is the last response of the stream; it is not a status update and
  carries no \<open>final\<close> flag.
\<close>

theorem C8_error_response_last:
  assumes "are_modalities_compatible (acceptedOutputModes (params request))
             hiagent_SUPPORTED_CONTENT_TYPES"
    and "parts (params_message (params request)) = TextPart q # ps"
    and "agent_stream q (params_sessionId (params request)) = (items, Some e)"
  shows "delivered are_modalities_compatible agent_stream request s
           = concat (map (item_responses (request_id request) (params_id (params request)))
                       items)
             @ [\<lparr>response_id = request_id request, result = None,
                 error = Some (InternalError (str e))\<rparr>]
         \<and> \<not> is_status_update
               (last (delivered are_modalities_compatible agent_stream request s))
         \<and> \<not> is_final (last (delivered are_modalities_compatible agent_stream request s))"
proof -
  have d: "delivered are_modalities_compatible agent_stream request s =
           concat (map (item_responses (request_id request) (params_id (params request))) items)
             @ [error_response (request_id request) e]"
    using delivered_run [where are_modalities_compatible = are_modalities_compatible
          and agent_stream = agent_stream, OF assms]
    by simp
  show ?thesis
    unfolding d by (simp add: error_response_def is_status_update_def is_final_def)
qed

theorem C8_error_response_last_witness:
  "delivered common_mode
     (stream_of [notification False False ''looking up...'']
        (Some (Exception ''backend unreachable'')))
     (request_with [''text''] [TextPart ''42'']) empty_manager
   = [status_response ''r1'' ''t1''
        \<lparr>state = WORKING,
         status_message = Some \<lparr>role = ''agent'', parts = [TextPart ''looking up...'']\<rparr>\<rparr> False,
      \<lparr>response_id = ''r1'', result = None,
       error = Some (InternalError ''backend unreachable'')\<rparr>]"
proof -
  note c = C8_error_response_last [where are_modalities_compatible = common_mode
      and agent_stream = "stream_of [notification False False ''looking up...'']
                            (Some (Exception ''backend unreachable''))"
      and s = empty_manager and ps = "[]" and q = "''42''"
      and request = "request_with [''text''] [TextPart ''42'']",
      OF request_with_text_hiagent request_with_parts stream_of_out]
  show ?thesis
    using c
    by (simp add: request_with_ids item_responses_def item_status_def item_state_def
          is_terminal_def notification_def request_with_def)
qed

text \<open>
  C8 as stated fails: the last response of a stream whose adapter raises is the error
  response, not a status update with state \<open>error\<close> and \<open>final = True\<close>.
\<close>

theorem C8_counterexample:
  "last (delivered common_mode (stream_of [] (Some (Exception ''backend unreachable'')))
           (request_with [''text''] [TextPart ''42'']) empty_manager)
     = \<lparr>response_id = ''r1'', result = None,
        error = Some (InternalError ''backend unreachable'')\<rparr>
   \<and> \<not> is_status_update
         (last (delivered common_mode (stream_of [] (Some (Exception ''backend unreachable'')))
                  (request_with [''text''] [TextPart ''42'']) empty_manager))
   \<and> \<not> list_ex is_final
         (delivered common_mode (stream_of [] (Some (Exception ''backend unreachable'')))
            (request_with [''text''] [TextPart ''42'']) empty_manager)"
proof -
  note d = delivered_run [where are_modalities_compatible = common_mode
      and agent_stream = "stream_of [] (Some (Exception ''backend unreachable''))"
      and s = empty_manager and ps = "[]" and q = "''42''"
      and request = "request_with [''text''] [TextPart ''42'']",
      OF request_with_text_hiagent request_with_parts stream_of_out]
  show ?thesis
    unfolding d
    by (simp add: request_with_ids error_response_def is_status_update_def is_final_def)
qed

subsection \<open>C9: parts of a non-text kind\<close>

text \<open>
  C9, as the code has it. \<^verbatim>\<open>_get_user_query\<close> looks at the first part only. An
  accepted request whose first part is of a non-text kind is rejected with
  \<^verbatim>\<open>ValueError('Only text parts are supported')\<close>, raised after the initial upsert
  (by the generator, for a streaming send); no later part is inspected.
\<close>

theorem C9_first_part_non_text:
  assumes "parts (params_message (params request)) = NonTextPart k # ps"
  shows "(are_modalities_compatible (acceptedOutputModes (params request))
            hiagent_SUPPORTED_CONTENT_TYPES \<longrightarrow>
            hiagent_on_send_task are_modalities_compatible agent_invoke request s
              = (Inl (ValueError ''Only text parts are supported''),
                 hiagent_upsert_task s (AsParams (params request)))
            \<and> hiagent_on_send_task_subscribe are_modalities_compatible agent_stream request s
              = (Inr (Some (ValueError ''Only text parts are supported'')),
                 hiagent_upsert_task s (AsParams (params request))))
         \<and> (are_modalities_compatible (acceptedOutputModes (params request))
              crewai_SUPPORTED_CONTENT_TYPES \<longrightarrow>
            crewai_on_send_task are_modalities_compatible crew_invoke request c
              = (Inl (ValueError ''Only text parts are supported''),
                 crewai_upsert_task c (AsParams (params request))))"
proof (intro conjI impI)
  assume ok: "are_modalities_compatible (acceptedOutputModes (params request))
                hiagent_SUPPORTED_CONTENT_TYPES"
  have query: "hiagent_get_user_query (params request)
                 = Inl (ValueError ''Only text parts are supported'')"
    using assms by (simp add: hiagent_get_user_query_def)
  show "hiagent_on_send_task are_modalities_compatible agent_invoke request s
              = (Inl (ValueError ''Only text parts are supported''),
                 hiagent_upsert_task s (AsParams (params request)))"
    unfolding hiagent_on_send_task_accepted
      [where are_modalities_compatible = are_modalities_compatible, OF ok]
    by (simp add: query)
  show "hiagent_on_send_task_subscribe are_modalities_compatible agent_stream request s
              = (Inr (Some (ValueError ''Only text parts are supported'')),
                 hiagent_upsert_task s (AsParams (params request)))"
    unfolding hiagent_on_send_task_subscribe_accepted
      [where are_modalities_compatible = are_modalities_compatible, OF ok]
    by (simp add: query)
next
  assume ok: "are_modalities_compatible (acceptedOutputModes (params request))
                crewai_SUPPORTED_CONTENT_TYPES"
  have query: "crewai_get_user_query (params request)
                 = Inl (ValueError ''Only text parts are supported'')"
    using assms by (simp add: crewai_get_user_query_def)
  show "crewai_on_send_task are_modalities_compatible crew_invoke request c
              = (Inl (ValueError ''Only text parts are supported''),
                 crewai_upsert_task c (AsParams (params request)))"
    unfolding crewai_on_send_task_accepted
      [where are_modalities_compatible = are_modalities_compatible, OF ok]
    by (simp add: crewai_invoke_def query)
qed

theorem C9_first_part_non_text_witness:
  "fst (hiagent_on_send_task common_mode (invoke_returns (notification True False ''done''))
          (request_with [''text''] [NonTextPart ''file'', TextPart ''42'']) empty_manager)
     = Inl (ValueError ''Only text parts are supported'')
   \<and> fst (hiagent_on_send_task_subscribe common_mode
            (stream_of [notification True False ''done''] None)
            (request_with [''text''] [NonTextPart ''file'', TextPart ''42'']) empty_manager)
     = Inr (Some (ValueError ''Only text parts are supported''))
   \<and> fst (crewai_on_send_task common_mode (crew_returns ''done'')
            (request_with [''text''] [NonTextPart ''file'', TextPart ''42'']) empty_manager)
     = Inl (ValueError ''Only text parts are supported'')"
proof -
  note c = C9_first_part_non_text [where are_modalities_compatible = common_mode
      and request = "request_with [''text''] [NonTextPart ''file'', TextPart ''42'']"
      and k = "''file''" and ps = "[TextPart ''42'']"
      and agent_invoke = "invoke_returns (notification True False ''done'')"
      and agent_stream = "stream_of [notification True False ''done''] None"
      and crew_invoke = "crew_returns ''done''"
      and s = empty_manager and c = empty_manager, OF request_with_parts]
  show ?thesis
    using c request_with_text_hiagent [of "[NonTextPart ''file'', TextPart ''42'']"]
      request_with_text_crewai [of "[NonTextPart ''file'', TextPart ''42'']"]
    by simp
qed

text \<open>
  C9 as stated fails: a message whose second part is of a non-text kind is processed
  from its first part, and the request ends with a completed task.
\<close>

theorem C9_counterexample:
  "fst (hiagent_on_send_task common_mode (invoke_returns (notification True False ''done''))
          (request_with [''text''] [TextPart ''42'', NonTextPart ''file'']) empty_manager)
     = Inr \<lparr>response_id = ''r1'',
            result = Some \<lparr>task_id = ''t1'', sessionId = Some ''s1'',
                            status = \<lparr>state = COMPLETED,
                                       status_message =
                                         Some \<lparr>role = ''agent'',
                                               parts = [TextPart ''done'']\<rparr>\<rparr>,
                            message = Some \<lparr>role = ''user'',
                                            parts = [TextPart ''42'', NonTextPart ''file'']\<rparr>,
                            artifacts = Some [\<lparr>artifact_parts = [TextPart ''done'']\<rparr>]\<rparr>,
            error = None\<rparr>
   \<and> fst (crewai_on_send_task common_mode (crew_returns ''done'')
            (request_with [''text''] [TextPart ''42'', NonTextPart ''file'']) empty_manager)
     = Inr \<lparr>response_id = ''r1'',
            result = Some \<lparr>task_id = ''t1'', sessionId = None,
                            status = \<lparr>state = COMPLETED, status_message = None\<rparr>,
                            message = Some \<lparr>role = ''agent'', parts = [TextPart ''done'']\<rparr>,
                            artifacts = Some [\<lparr>artifact_parts = [TextPart ''done'']\<rparr>]\<rparr>,
            error = None\<rparr>"
proof -
  have query:
    "hiagent_get_user_query
       (params (request_with [''text''] [TextPart ''42'', NonTextPart ''file''])) = Inr ''42''"
    "crewai_get_user_query
       (params (request_with [''text''] [TextPart ''42'', NonTextPart ''file''])) = Inr ''42''"
    by (simp_all add: hiagent_get_user_query_def crewai_get_user_query_def request_with_def)
  have hi: "fst (hiagent_on_send_task common_mode
                   (invoke_returns (notification True False ''done''))
                   (request_with [''text''] [TextPart ''42'', NonTextPart ''file''])
                   empty_manager)
     = Inr \<lparr>response_id = ''r1'',
            result = Some \<lparr>task_id = ''t1'', sessionId = Some ''s1'',
                            status = \<lparr>state = COMPLETED,
                                       status_message =
                                         Some \<lparr>role = ''agent'',
                                               parts = [TextPart ''done'']\<rparr>\<rparr>,
                            message = Some \<lparr>role = ''user'',
                                            parts = [TextPart ''42'', NonTextPart ''file'']\<rparr>,
                            artifacts = Some [\<lparr>artifact_parts = [TextPart ''done'']\<rparr>]\<rparr>,
            error = None\<rparr>"
    unfolding hiagent_on_send_task_accepted
      [where are_modalities_compatible = common_mode, OF request_with_text_hiagent]
    by (simp add: query invoke_returns_def notification_def initial_task_def request_with_ids)
  have crew: "fst (crewai_on_send_task common_mode (crew_returns ''done'')
            (request_with [''text''] [TextPart ''42'', NonTextPart ''file'']) empty_manager)
     = Inr \<lparr>response_id = ''r1'',
            result = Some \<lparr>task_id = ''t1'', sessionId = None,
                            status = \<lparr>state = COMPLETED, status_message = None\<rparr>,
                            message = Some \<lparr>role = ''agent'', parts = [TextPart ''done'']\<rparr>,
                            artifacts = Some [\<lparr>artifact_parts = [TextPart ''done'']\<rparr>]\<rparr>,
            error = None\<rparr>"
    unfolding crewai_on_send_task_accepted
      [where are_modalities_compatible = common_mode, OF request_with_text_crewai]
    by (simp add: crewai_invoke_def query crew_returns_def request_with_ids Let_def)
  from hi crew show ?thesis by simp
qed

subsection \<open>C10: a message with no parts\<close>

text \<open>
  C10, as the code has it. \<^verbatim>\<open>_get_user_query\<close> indexes \<^verbatim>\<open>parts[0]\<close> without a
  check. For an accepted request whose message has no parts, \<^verbatim>\<open>on_send_task\<close> of
  both managers raises \<^verbatim>\<open>IndexError\<close> after the initial upsert, and the generator of
  the HiAgent \<^verbatim>\<open>on_send_task_subscribe\<close> raises it when it is first run. The store
  then holds what the initial upsert wrote: the task in state \<open>working\<close> (HiAgent), the
  request's parameters (data analysis).
\<close>

theorem C10_empty_parts:
  assumes "parts (params_message (params request)) = []"
  shows "(are_modalities_compatible (acceptedOutputModes (params request))
            hiagent_SUPPORTED_CONTENT_TYPES \<longrightarrow>
            hiagent_on_send_task are_modalities_compatible agent_invoke request s
              = (Inl (IndexError ''list index out of range''),
                 hiagent_upsert_task s (AsParams (params request)))
            \<and> hiagent_on_send_task_subscribe are_modalities_compatible agent_stream request s
              = (Inr (Some (IndexError ''list index out of range'')),
                 hiagent_upsert_task s (AsParams (params request)))
            \<and> hiagent_get_task (hiagent_upsert_task s (AsParams (params request)))
                (params_id (params request))
              = Some (initial_task (params request)))
         \<and> (are_modalities_compatible (acceptedOutputModes (params request))
              crewai_SUPPORTED_CONTENT_TYPES \<longrightarrow>
            crewai_on_send_task are_modalities_compatible crew_invoke request c
              = (Inl (IndexError ''list index out of range''),
                 crewai_upsert_task c (AsParams (params request)))
            \<and> crewai_get_task (crewai_upsert_task c (AsParams (params request)))
                (params_id (params request))
              = Some (AsParams (params request)))"
proof (intro conjI impI)
  assume ok: "are_modalities_compatible (acceptedOutputModes (params request))
                hiagent_SUPPORTED_CONTENT_TYPES"
  have query: "hiagent_get_user_query (params request)
                 = Inl (IndexError ''list index out of range'')"
    using assms by (simp add: hiagent_get_user_query_def)
  show "hiagent_on_send_task are_modalities_compatible agent_invoke request s
              = (Inl (IndexError ''list index out of range''),
                 hiagent_upsert_task s (AsParams (params request)))"
    unfolding hiagent_on_send_task_accepted
      [where are_modalities_compatible = are_modalities_compatible, OF ok]
    by (simp add: query)
  show "hiagent_on_send_task_subscribe are_modalities_compatible agent_stream request s
              = (Inr (Some (IndexError ''list index out of range'')),
                 hiagent_upsert_task s (AsParams (params request)))"
    unfolding hiagent_on_send_task_subscribe_accepted
      [where are_modalities_compatible = are_modalities_compatible, OF ok]
    by (simp add: query)
next
  show "hiagent_get_task (hiagent_upsert_task s (AsParams (params request)))
                (params_id (params request))
              = Some (initial_task (params request))"
    by (rule hiagent_get_task_upsert)
next
  assume ok: "are_modalities_compatible (acceptedOutputModes (params request))
                crewai_SUPPORTED_CONTENT_TYPES"
  have query: "crewai_get_user_query (params request)
                 = Inl (IndexError ''list index out of range'')"
    using assms by (simp add: crewai_get_user_query_def)
  show "crewai_on_send_task are_modalities_compatible crew_invoke request c
              = (Inl (IndexError ''list index out of range''),
                 crewai_upsert_task c (AsParams (params request)))"
    unfolding crewai_on_send_task_accepted
      [where are_modalities_compatible = are_modalities_compatible, OF ok]
    by (simp add: crewai_invoke_def query)
next
  show "crewai_get_task (crewai_upsert_task c (AsParams (params request)))
                (params_id (params request))
              = Some (AsParams (params request))"
    by (simp add: crewai_get_task_def crewai_upsert_params)
qed

theorem C10_empty_parts_witness:
  "fst (hiagent_on_send_task common_mode (invoke_returns (notification True False ''done''))
          (request_with [''text''] []) empty_manager)
     = Inl (IndexError ''list index out of range'')
   \<and> fst (hiagent_on_send_task_subscribe common_mode
            (stream_of [notification True False ''done''] None)
            (request_with [''text''] []) empty_manager)
     = Inr (Some (IndexError ''list index out of range''))
   \<and> map_option status
        (hiagent_get_task
           (snd (hiagent_on_send_task common_mode
                   (invoke_returns (notification True False ''done''))
                   (request_with [''text''] []) empty_manager)) ''t1'')
     = Some \<lparr>state = WORKING, status_message = None\<rparr>
   \<and> fst (crewai_on_send_task common_mode (crew_returns ''done'')
            (request_with [''text''] []) empty_manager)
     = Inl (IndexError ''list index out of range'')
   \<and> crewai_get_task
        (snd (crewai_on_send_task common_mode (crew_returns ''done'')
                (request_with [''text''] []) empty_manager)) ''t1''
     = Some (AsParams (params (request_with [''text''] [])))"
proof -
  note c = C10_empty_parts [where are_modalities_compatible = common_mode
      and request = "request_with [''text''] []"
      and agent_invoke = "invoke_returns (notification True False ''done'')"
      and agent_stream = "stream_of [notification True False ''done''] None"
      and crew_invoke = "crew_returns ''done''"
      and s = empty_manager and c = empty_manager, OF request_with_parts]
  show ?thesis
    using c request_with_text_hiagent [of "[]"] request_with_text_crewai [of "[]"]
    by (simp add: request_with_ids initial_task_def)
qed

text \<open>
  C10 as stated fails for a request that does not pass the validation: it gets the typed
  incompatible-types result before the query is extracted, nothing is stored, and
  \<^verbatim>\<open>get_task\<close> finds no task afterwards.
\<close>

theorem C10_counterexample:
  "hiagent_on_send_task common_mode (invoke_returns (notification True False ''done''))
     (request_with [''image/png''] []) empty_manager
     = (Inr \<lparr>response_id = ''r1'', result = None,
             error = Some ContentTypeNotSupportedError\<rparr>, empty_manager)
   \<and> hiagent_get_task
        (snd (hiagent_on_send_task common_mode
                (invoke_returns (notification True False ''done''))
                (request_with [''image/png''] []) empty_manager)) ''t1'' = None
   \<and> crewai_on_send_task common_mode (crew_returns ''done'')
        (request_with [''image/png''] []) empty_manager
     = (Inr \<lparr>response_id = ''r1'', result = None,
             error = Some ContentTypeNotSupportedError\<rparr>, empty_manager)"
  by (simp add: hiagent_on_send_task_def hiagent_validate_request_def crewai_on_send_task_def
        common_mode_def request_with_def hiagent_SUPPORTED_CONTENT_TYPES_def
        crewai_SUPPORTED_CONTENT_TYPES_def new_incompatible_types_error_def
        hiagent_get_task_def empty_manager_def)

end
